theory Spec2Isabelle
  imports Complex_Main "HOL-Library.AList" "HOL-Library.Sublist"
begin

section \<open>Values and documents\<close>

text \<open>
  JSON values as they travel between the HTTP layer, the schema classes and the document
  store. Python strings are modelled as \<open>string\<close>; a number, integer or float, is
  modelled as a real number.
  A Python dict with string keys is an association list with distinct keys, read with
  \<open>map_of\<close> and written with \<open>AList.update\<close> (assignment to a key).
\<close>

datatype val =
    VNull
  | VBool bool
  | VNum real
  | VStr string
  | VList "val list"
  | VDict "(string \<times> val) list"

type_synonym dict = "(string \<times> val) list"

text \<open>
  A stored document is a dict whose \<open>_id\<close> entry, when present, holds the identifier
  the store assigned. The model keeps that entry apart from the other keys: \<open>oid\<close> is
  \<open>None\<close> when the dict has no \<open>_id\<close> key.
\<close>

record sdoc =
  oid :: "nat option"
  entries :: dict

section \<open>schemas.py\<close>

record Metric =
  m_label :: string
  m_value :: string

record CaseStudy =
  brand :: string
  logo_url :: "string option"
  industry :: string
  scope :: "string list"
  campaign_type :: string
  headline :: string
  highlight :: string
  metrics :: "Metric list"
  tags :: "string list"
  video_url :: "string option"
  featured :: bool
  performance_score :: "real option"

text \<open>\<open>CaseStudyOut\<close> of main.py: the response model. It declares no \<open>video_url\<close>.\<close>

record CaseStudyOut =
  out_id :: string
  out_brand :: string
  out_logo_url :: "string option"
  out_industry :: string
  out_scope :: "string list"
  out_campaign_type :: string
  out_headline :: string
  out_highlight :: string
  out_metrics :: "Metric list"
  out_tags :: "string list"
  out_featured :: bool
  out_performance_score :: "real option"

datatype error =
    RequestValidationError "string list"
  | ModelValidationError "string list"
  | StoreUnavailable

subsection \<open>Field checks of the validation library\<close>

text \<open>
  What a declared field type accepts; \<open>None\<close> is a field error. A field declared
  \<open>str\<close> accepts a string only. A field declared \<open>bool\<close> or \<open>float\<close> is converted by the
  library: besides a boolean, a \<open>bool\<close> field accepts the numbers 0 and 1 and, without
  regard to case, the strings \<open>0 off f false n no\<close> (false) and \<open>1 on t true y yes\<close>
  (true); besides a number, a \<open>float\<close> field accepts whatever the library converts to a
  float, such as a numeric string. The validation library is not among the sources: its
  conversions to a float and its reading of a URL (\<open>HttpUrl\<close>, which also puts the URL
  in normal form) are the parameters \<open>conv_float\<close> and \<open>parse_url\<close>.
\<close>

record library =
  parse_url :: "string \<Rightarrow> string option"
  conv_float :: "val \<Rightarrow> real option"

definition lower_char :: "char \<Rightarrow> char" where
  "lower_char c =
     (case map_of (zip ''ABCDEFGHIJKLMNOPQRSTUVWXYZ'' ''abcdefghijklmnopqrstuvwxyz'') c of
        Some l \<Rightarrow> l
      | None \<Rightarrow> c)"

definition as_str :: "val \<Rightarrow> string option" where
  "as_str v = (case v of VStr s \<Rightarrow> Some s | _ \<Rightarrow> None)"

definition bool_of_string :: "string \<Rightarrow> bool option" where
  "bool_of_string s =
     (let l = map lower_char s
      in if l \<in> set [''0'', ''off'', ''f'', ''false'', ''n'', ''no''] then Some False
         else if l \<in> set [''1'', ''on'', ''t'', ''true'', ''y'', ''yes''] then Some True
         else None)"

definition as_bool :: "val \<Rightarrow> bool option" where
  "as_bool v =
     (case v of
        VBool b \<Rightarrow> Some b
      | VNum x \<Rightarrow> (if x = 0 then Some False else if x = 1 then Some True else None)
      | VStr s \<Rightarrow> bool_of_string s
      | _ \<Rightarrow> None)"

definition as_float :: "library \<Rightarrow> val \<Rightarrow> real option" where
  "as_float L v = (case v of VNum x \<Rightarrow> Some x | _ \<Rightarrow> conv_float L v)"

fun all_some :: "'a option list \<Rightarrow> 'a list option" where
  "all_some [] = Some []"
| "all_some (x # xs) =
     (case x of None \<Rightarrow> None
      | Some y \<Rightarrow> (case all_some xs of None \<Rightarrow> None | Some ys \<Rightarrow> Some (y # ys)))"

definition as_list :: "(val \<Rightarrow> 'a option) \<Rightarrow> val \<Rightarrow> 'a list option" where
  "as_list conv v = (case v of VList vs \<Rightarrow> all_some (map conv vs) | _ \<Rightarrow> None)"

text \<open>\<open>Metric\<close>: both \<open>label\<close> and \<open>value\<close> are required strings.\<close>

definition as_Metric :: "val \<Rightarrow> Metric option" where
  "as_Metric v =
     (case v of
        VDict d \<Rightarrow>
          (case (map_of d ''label'', map_of d ''value'') of
             (Some (VStr l), Some (VStr x)) \<Rightarrow> Some \<lparr>m_label = l, m_value = x\<rparr>
           | _ \<Rightarrow> None)
      | _ \<Rightarrow> None)"

text \<open>A URL field accepts a string that the library reads as a URL, in its normal form.\<close>

definition as_url :: "library \<Rightarrow> val \<Rightarrow> string option" where
  "as_url L v = (case v of VStr s \<Rightarrow> parse_url L s | _ \<Rightarrow> None)"

text \<open>
  The three ways a field is declared: \<open>Field(...)\<close> (required), \<open>Optional[T] = None\<close>
  and a field with a default. The outer \<open>None\<close> is a field error.
\<close>

definition required :: "(val \<Rightarrow> 'a option) \<Rightarrow> dict \<Rightarrow> string \<Rightarrow> 'a option" where
  "required conv d k = (case map_of d k of None \<Rightarrow> None | Some v \<Rightarrow> conv v)"

definition optional :: "(val \<Rightarrow> 'a option) \<Rightarrow> dict \<Rightarrow> string \<Rightarrow> 'a option option" where
  "optional conv d k =
     (case map_of d k of
        None \<Rightarrow> Some None
      | Some VNull \<Rightarrow> Some None
      | Some v \<Rightarrow> (case conv v of None \<Rightarrow> None | Some x \<Rightarrow> Some (Some x)))"

definition defaulted :: "'a \<Rightarrow> (val \<Rightarrow> 'a option) \<Rightarrow> dict \<Rightarrow> string \<Rightarrow> 'a option" where
  "defaulted dflt conv d k = (case map_of d k of None \<Rightarrow> Some dflt | Some v \<Rightarrow> conv v)"

definition failed :: "(string \<times> bool) list \<Rightarrow> string list" where
  "failed checks = map fst (filter (\<lambda>(k, ok). \<not> ok) checks)"

subsection \<open>Validating a payload as a \<open>CaseStudy\<close>\<close>

definition CaseStudy_errors :: "library \<Rightarrow> dict \<Rightarrow> string list" where
  "CaseStudy_errors L d = failed
     [(''brand'', required as_str d ''brand'' \<noteq> None),
      (''logo_url'', optional (as_url L) d ''logo_url'' \<noteq> None),
      (''industry'', required as_str d ''industry'' \<noteq> None),
      (''scope'', defaulted [] (as_list as_str) d ''scope'' \<noteq> None),
      (''campaign_type'', required as_str d ''campaign_type'' \<noteq> None),
      (''headline'', required as_str d ''headline'' \<noteq> None),
      (''highlight'', required as_str d ''highlight'' \<noteq> None),
      (''metrics'', defaulted [] (as_list as_Metric) d ''metrics'' \<noteq> None),
      (''tags'', defaulted [] (as_list as_str) d ''tags'' \<noteq> None),
      (''video_url'', optional (as_url L) d ''video_url'' \<noteq> None),
      (''featured'', defaulted False as_bool d ''featured'' \<noteq> None),
      (''performance_score'', optional (as_float L) d ''performance_score'' \<noteq> None)]"

definition validate_CaseStudy :: "library \<Rightarrow> dict \<Rightarrow> string list + CaseStudy" where
  "validate_CaseStudy L d =
     (if CaseStudy_errors L d \<noteq> [] then Inl (CaseStudy_errors L d)
      else Inr
        \<lparr>brand = the (required as_str d ''brand''),
         logo_url = the (optional (as_url L) d ''logo_url''),
         industry = the (required as_str d ''industry''),
         scope = the (defaulted [] (as_list as_str) d ''scope''),
         campaign_type = the (required as_str d ''campaign_type''),
         headline = the (required as_str d ''headline''),
         highlight = the (required as_str d ''highlight''),
         metrics = the (defaulted [] (as_list as_Metric) d ''metrics''),
         tags = the (defaulted [] (as_list as_str) d ''tags''),
         video_url = the (optional (as_url L) d ''video_url''),
         featured = the (defaulted False as_bool d ''featured''),
         performance_score = the (optional (as_float L) d ''performance_score'')\<rparr>)"

subsection \<open>Constructing a \<open>CaseStudyOut\<close> from keyword arguments\<close>

text \<open>Keys the class does not declare are ignored.\<close>

definition CaseStudyOut_errors :: "library \<Rightarrow> dict \<Rightarrow> string list" where
  "CaseStudyOut_errors L d = failed
     [(''id'', required as_str d ''id'' \<noteq> None),
      (''brand'', required as_str d ''brand'' \<noteq> None),
      (''logo_url'', optional as_str d ''logo_url'' \<noteq> None),
      (''industry'', required as_str d ''industry'' \<noteq> None),
      (''scope'', defaulted [] (as_list as_str) d ''scope'' \<noteq> None),
      (''campaign_type'', required as_str d ''campaign_type'' \<noteq> None),
      (''headline'', required as_str d ''headline'' \<noteq> None),
      (''highlight'', required as_str d ''highlight'' \<noteq> None),
      (''metrics'', defaulted [] (as_list as_Metric) d ''metrics'' \<noteq> None),
      (''tags'', defaulted [] (as_list as_str) d ''tags'' \<noteq> None),
      (''featured'', defaulted False as_bool d ''featured'' \<noteq> None),
      (''performance_score'', optional (as_float L) d ''performance_score'' \<noteq> None)]"

definition make_CaseStudyOut :: "library \<Rightarrow> dict \<Rightarrow> error + CaseStudyOut" where
  "make_CaseStudyOut L d =
     (if CaseStudyOut_errors L d \<noteq> [] then Inl (ModelValidationError (CaseStudyOut_errors L d))
      else Inr
        \<lparr>out_id = the (required as_str d ''id''),
         out_brand = the (required as_str d ''brand''),
         out_logo_url = the (optional as_str d ''logo_url''),
         out_industry = the (required as_str d ''industry''),
         out_scope = the (defaulted [] (as_list as_str) d ''scope''),
         out_campaign_type = the (required as_str d ''campaign_type''),
         out_headline = the (required as_str d ''headline''),
         out_highlight = the (required as_str d ''highlight''),
         out_metrics = the (defaulted [] (as_list as_Metric) d ''metrics''),
         out_tags = the (defaulted [] (as_list as_str) d ''tags''),
         out_featured = the (defaulted False as_bool d ''featured''),
         out_performance_score = the (optional (as_float L) d ''performance_score'')\<rparr>)"

section \<open>The document store\<close>

text \<open>
  \<open>database.py\<close> (the handle \<open>db\<close>, \<open>create_document\<close>, \<open>get_documents\<close>) is not
  among the sources. The store is a set of named collections, each a sequence of stored
  documents in insertion order, and a counter from which identifiers are drawn. The
  global handle \<open>db\<close> is a \<open>store option\<close>: \<open>None\<close> when the store is unavailable.
\<close>

record store =
  colls :: "(string \<times> sdoc list) list"
  next_oid :: nat

definition coll :: "store \<Rightarrow> string \<Rightarrow> sdoc list" where
  "coll st name = (case map_of (colls st) name of None \<Rightarrow> [] | Some ds \<Rightarrow> ds)"

definition hex_digit :: "nat \<Rightarrow> char" where
  "hex_digit n = ''0123456789abcdef'' ! (n mod 16)"

text \<open>
  Modelled from the spec: the string form of a store-assigned identifier, which the spec
  leaves opaque. Here it is the identifier's 24 hexadecimal digits.
\<close>

definition oid_str :: "nat \<Rightarrow> string" where
  "oid_str n = map (\<lambda>i. hex_digit (n div 16 ^ (23 - i))) [0..<24]"

text \<open>
  Modelled from the spec: the document under which a validated \<open>CaseStudy\<close> is stored
  has the payload's fields, by name (the adapter's \<open>insert(collection, document)\<close>).
\<close>

definition dump_opt :: "('a \<Rightarrow> val) \<Rightarrow> 'a option \<Rightarrow> val" where
  "dump_opt f x = (case x of None \<Rightarrow> VNull | Some y \<Rightarrow> f y)"

definition dump_Metric :: "Metric \<Rightarrow> val" where
  "dump_Metric m = VDict [(''label'', VStr (m_label m)), (''value'', VStr (m_value m))]"

definition model_dump :: "CaseStudy \<Rightarrow> dict" where
  "model_dump p =
     [(''brand'', VStr (brand p)),
      (''logo_url'', dump_opt VStr (logo_url p)),
      (''industry'', VStr (industry p)),
      (''scope'', VList (map VStr (scope p))),
      (''campaign_type'', VStr (campaign_type p)),
      (''headline'', VStr (headline p)),
      (''highlight'', VStr (highlight p)),
      (''metrics'', VList (map dump_Metric (metrics p))),
      (''tags'', VList (map VStr (tags p))),
      (''video_url'', dump_opt VStr (video_url p)),
      (''featured'', VBool (featured p)),
      (''performance_score'', dump_opt VNum (performance_score p))]"

text \<open>
  Modelled from the spec: \<open>create_document\<close>, the adapter's
  \<open>insert(collection, document) -> id\<close>. The store assigns the identifier, appends the
  document to the collection and returns the identifier's string form; with no store
  the call raises.
\<close>

definition stored_doc :: "nat \<Rightarrow> CaseStudy \<Rightarrow> sdoc" where
  "stored_doc n p = \<lparr>oid = Some n, entries = model_dump p\<rparr>"

definition create_document :: "store option \<Rightarrow> string \<Rightarrow> CaseStudy \<Rightarrow> (error + string) \<times> store option" where
  "create_document db name p =
     (case db of
        None \<Rightarrow> (Inl StoreUnavailable, None)
      | Some st \<Rightarrow>
          (Inr (oid_str (next_oid st)),
           Some (st\<lparr>colls := AList.update name (coll st name @ [stored_doc (next_oid st) p]) (colls st),
                    next_oid := Suc (next_oid st)\<rparr>)))"

subsection \<open>Filters\<close>

text \<open>
  The filter dicts main.py builds: a key maps to a plain value (equality), to
  \<open>{"$in": [...]}\<close> or to \<open>{"$regex": p, "$options": o}\<close>; the key \<open>$or\<close> maps to a
  list of such dicts.
\<close>

datatype cond =
    Eq val
  | In "val list"
  | Regex string string

datatype fval =
    Cond cond
  | Alternatives "(string \<times> cond) list list"

type_synonym query = "(string \<times> fval) list"

text \<open>
  The store's pattern matcher belongs to the database and is a parameter throughout:
  \<open>rx p opts s\<close> says whether pattern \<open>p\<close> under options \<open>opts\<close> matches somewhere in \<open>s\<close>.
\<close>

type_synonym matcher = "string \<Rightarrow> string \<Rightarrow> string \<Rightarrow> bool"

text \<open>
  Modelled from the spec: how the store reads a filter. A plain value is an exact match
  on the field; \<open>$in\<close> on a sequence field holds when the sequence contains one of the
  listed terms; a pattern on a string field is a match of that string, on a sequence
  field a match of any of its string entries. An absent field satisfies no constraint.
  The entries of a dict hold together (logical AND), those of \<open>$or\<close> alternatively.
\<close>

fun holds :: "matcher \<Rightarrow> cond \<Rightarrow> val option \<Rightarrow> bool" where
  "holds rx c None = False"
| "holds rx (Eq x) (Some v) = (v = x)"
| "holds rx (In xs) (Some v) =
     (case v of VList vs \<Rightarrow> list_ex (\<lambda>e. e \<in> set xs) vs | _ \<Rightarrow> v \<in> set xs)"
| "holds rx (Regex p opts) (Some v) =
     (case v of
        VStr s \<Rightarrow> rx p opts s
      | VList vs \<Rightarrow> list_ex (\<lambda>e. case e of VStr s \<Rightarrow> rx p opts s | _ \<Rightarrow> False) vs
      | _ \<Rightarrow> False)"

definition holds_all :: "matcher \<Rightarrow> (string \<times> cond) list \<Rightarrow> dict \<Rightarrow> bool" where
  "holds_all rx cs d = list_all (\<lambda>(k, c). holds rx c (map_of d k)) cs"

definition matches :: "matcher \<Rightarrow> query \<Rightarrow> sdoc \<Rightarrow> bool" where
  "matches rx qry d =
     list_all (\<lambda>(k, fv). case fv of
                  Cond c \<Rightarrow> holds rx c (map_of (entries d) k)
                | Alternatives alts \<Rightarrow> list_ex (\<lambda>cs. holds_all rx cs (entries d)) alts) qry"

text \<open>
  Modelled from the spec: \<open>get_documents\<close>, the adapter's
  \<open>find(collection, filter, limit) -> sequence of documents\<close>: the documents of the
  collection that satisfy the filter, in stored order, at most \<open>limit\<close> of them; with
  no store the call raises.
\<close>

definition get_documents :: "matcher \<Rightarrow> store option \<Rightarrow> string \<Rightarrow> query \<Rightarrow> int \<Rightarrow> error + sdoc list" where
  "get_documents rx db name qry limit =
     (case db of
        None \<Rightarrow> Inl StoreUnavailable
      | Some st \<Rightarrow> Inr (take (nat limit) (filter (matches rx qry) (coll st name))))"

section \<open>main.py\<close>

subsection \<open>The diagnostic endpoint\<close>

text \<open>
  What \<open>test_database\<close> observes of the handle: its \<open>name\<close> attribute when it has one,
  and the outcome of \<open>list_collection_names()\<close>, \<open>Inl msg\<close> when the call raises an
  exception whose text is \<open>msg\<close>. The marks are the UTF-8 bytes of the source's symbols.
\<close>

record db_handle =
  name_attr :: "string option"
  list_collection_names :: "string + string list"

record response =
  backend :: string
  database :: string
  database_url :: "string option"
  database_name :: "string option"
  connection_status :: string
  collections :: "string list"

definition check_mark :: string where
  "check_mark = [CHR 0xE2, CHR 0x9C, CHR 0x85]"

definition cross_mark :: string where
  "cross_mark = [CHR 0xE2, CHR 0x9D, CHR 0x8C]"

definition warning_sign :: string where
  "warning_sign = [CHR 0xE2, CHR 0x9A, CHR 0xA0, CHR 0xEF, CHR 0xB8, CHR 0x8F]"

text \<open>Python truthiness of an optional string: \<open>None\<close> and the empty string are false.\<close>

definition truthy :: "string option \<Rightarrow> bool" where
  "truthy p = (case p of None \<Rightarrow> False | Some s \<Rightarrow> s \<noteq> [])"

definition test_database :: "db_handle option \<Rightarrow> (string \<Rightarrow> string option) \<Rightarrow> error + response" where
  "test_database db getenv =
     (let response =
            \<lparr>backend = check_mark @ '' Running'',
             database = cross_mark @ '' Not Available'',
             database_url = None,
             database_name = None,
             connection_status = ''Not Connected'',
             collections = []\<rparr>;
          response =
            (case db of
               Some h \<Rightarrow>
                 (let r = response
                        \<lparr>database := check_mark @ '' Available'',
                         database_url := Some (check_mark @ '' Configured''),
                         database_name := Some (case name_attr h of
                                                  Some n \<Rightarrow> n
                                                | None \<Rightarrow> check_mark @ '' Connected''),
                         connection_status := ''Connected''\<rparr>
                  in (case list_collection_names h of
                        Inr cs \<Rightarrow>
                          r\<lparr>collections := take 10 cs,
                            database := check_mark @ '' Connected & Working''\<rparr>
                      | Inl e \<Rightarrow>
                          r\<lparr>database := warning_sign @ ''  Connected but Error: '' @ take 50 e\<rparr>))
             | None \<Rightarrow>
                 response\<lparr>database := warning_sign @ ''  Available but not initialized''\<rparr>);
          response = response
            \<lparr>database_url := Some (if truthy (getenv ''DATABASE_URL'')
                                    then check_mark @ '' Set'' else cross_mark @ '' Not Set'')\<rparr>;
          response = response
            \<lparr>database_name := Some (if truthy (getenv ''DATABASE_NAME'')
                                     then check_mark @ '' Set'' else cross_mark @ '' Not Set'')\<rparr>
      in Inr response)"

subsection \<open>The response shaper\<close>

definition serialize :: "sdoc \<Rightarrow> dict" where
  "serialize doc =
     (case oid doc of
        Some i \<Rightarrow> AList.update ''id'' (VStr (oid_str i)) (entries doc)
      | None \<Rightarrow> entries doc)"

definition shape :: "library \<Rightarrow> sdoc \<Rightarrow> error + CaseStudyOut" where
  "shape L d = make_CaseStudyOut L (serialize d)"

text \<open>The list comprehension \<open>[CaseStudyOut(**_serialize(d)) for d in docs]\<close>.\<close>

fun shape_all :: "library \<Rightarrow> sdoc list \<Rightarrow> error + CaseStudyOut list" where
  "shape_all L [] = Inr []"
| "shape_all L (d # ds) =
     (case shape L d of
        Inl e \<Rightarrow> Inl e
      | Inr r \<Rightarrow> (case shape_all L ds of Inl e \<Rightarrow> Inl e | Inr rs \<Rightarrow> Inr (r # rs)))"

subsection \<open>Listing\<close>

definition list_filters :: "string option \<Rightarrow> string option \<Rightarrow> string option \<Rightarrow> string option \<Rightarrow> query" where
  "list_filters q industry scope campaign_type =
     (let filters = [];
          filters = (if truthy industry
                     then AList.update ''industry'' (Cond (Eq (VStr (the industry)))) filters
                     else filters);
          filters = (if truthy campaign_type
                     then AList.update ''campaign_type'' (Cond (Eq (VStr (the campaign_type)))) filters
                     else filters);
          filters = (if truthy scope
                     then AList.update ''scope'' (Cond (In [VStr (the scope)])) filters
                     else filters);
          filters = (if truthy q
                     then AList.update ''$or'' (Alternatives
                            [[(''brand'', Regex (the q) ''i'')],
                             [(''headline'', Regex (the q) ''i'')],
                             [(''highlight'', Regex (the q) ''i'')],
                             [(''tags'', Regex (the q) ''i'')]]) filters
                     else filters)
      in filters)"
  for industry scope campaign_type

definition list_case_studies ::
  "library \<Rightarrow> matcher \<Rightarrow> store option \<Rightarrow> string option \<Rightarrow> string option \<Rightarrow> string option \<Rightarrow> string option \<Rightarrow> int
     \<Rightarrow> error + CaseStudyOut list" where
  "list_case_studies L rx db q industry scope campaign_type limit =
     (case get_documents rx db ''casestudy'' (list_filters q industry scope campaign_type) limit of
        Inl e \<Rightarrow> Inl e
      | Inr docs \<Rightarrow> shape_all L docs)"
  for industry scope campaign_type

definition featured_case_studies :: "library \<Rightarrow> matcher \<Rightarrow> store option \<Rightarrow> int \<Rightarrow> error + CaseStudyOut list" where
  "featured_case_studies L rx db limit =
     (case get_documents rx db ''casestudy'' [(''featured'', Cond (Eq (VBool True)))] limit of
        Inl e \<Rightarrow> Inl e
      | Inr docs \<Rightarrow> shape_all L docs)"

text \<open>
  The declared bounds of the \<open>limit\<close> query parameter, \<open>Query(24, ge=1, le=100)\<close> and
  \<open>Query(6, ge=1, le=12)\<close>: the framework applies the default and rejects a value out
  of range before it calls the handler.
\<close>

definition list_case_studies_request ::
  "library \<Rightarrow> matcher \<Rightarrow> store option \<Rightarrow> string option \<Rightarrow> string option \<Rightarrow> string option \<Rightarrow> string option
     \<Rightarrow> int option \<Rightarrow> error + CaseStudyOut list" where
  "list_case_studies_request L rx db q industry scope campaign_type limit =
     (let l = (case limit of None \<Rightarrow> 24 | Some n \<Rightarrow> n)
      in if l < 1 \<or> 100 < l then Inl (RequestValidationError [''limit''])
         else list_case_studies L rx db q industry scope campaign_type l)"
  for industry scope campaign_type

definition featured_case_studies_request ::
  "library \<Rightarrow> matcher \<Rightarrow> store option \<Rightarrow> int option \<Rightarrow> error + CaseStudyOut list" where
  "featured_case_studies_request L rx db limit =
     (let l = (case limit of None \<Rightarrow> 6 | Some n \<Rightarrow> n)
      in if l < 1 \<or> 12 < l then Inl (RequestValidationError [''limit''])
         else featured_case_studies L rx db l)"

subsection \<open>Creating\<close>

definition create_case_study :: "store option \<Rightarrow> CaseStudy \<Rightarrow> (error + dict) \<times> store option" where
  "create_case_study db payload =
     (case create_document db ''casestudy'' payload of
        (Inl e, db') \<Rightarrow> (Inl e, db')
      | (Inr inserted_id, db') \<Rightarrow> (Inr [(''id'', VStr inserted_id)], db'))"

text \<open>
  The handler's parameter is declared \<open>payload: CaseStudy\<close>: the framework validates the
  request body against the schema and calls the handler only with a valid payload.
\<close>

definition create_case_study_request ::
  "library \<Rightarrow> store option \<Rightarrow> dict \<Rightarrow> (error + dict) \<times> store option" where
  "create_case_study_request L db body =
     (case validate_CaseStudy L body of
        Inl errs \<Rightarrow> (Inl (RequestValidationError errs), db)
      | Inr payload \<Rightarrow> create_case_study db payload)"

subsection \<open>Seeding\<close>

text \<open>
  The three samples, as the constructor calls of \<open>seed_demo_data\<close> give them: every
  argument is of the declared type, and the logo URLs are written in normal form.
\<close>

definition sample_aurora :: CaseStudy where
  "sample_aurora =
     \<lparr>brand = ''Aurora Beauty'',
      logo_url = Some ''https://dummyimage.com/80x80/eeeeee/000000&text=A'',
      industry = ''Beauty'',
      scope = [''Performance'', ''UGC'', ''Influencer''],
      campaign_type = ''Integrated'',
      headline = ''From launch to leadership in 3 months'',
      highlight = ''4.3x ROAS and 1M+ engagements'',
      metrics = [\<lparr>m_label = ''ROAS'', m_value = ''4.3x''\<rparr>,
                 \<lparr>m_label = ''Engagements'', m_value = ''1M+''\<rparr>,
                 \<lparr>m_label = ''Reach'', m_value = ''2.1M''\<rparr>],
      tags = [''beauty'', ''makeup'', ''ecommerce''],
      video_url = None,
      featured = True,
      performance_score = Some 92.5\<rparr>"

definition sample_volt :: CaseStudy where
  "sample_volt =
     \<lparr>brand = ''Volt Wear'',
      logo_url = Some ''https://dummyimage.com/80x80/eeeeee/000000&text=V'',
      industry = ''Fashion'',
      scope = [''Branding'', ''Socials''],
      campaign_type = ''Organic'',
      headline = ''Community-first brand building'',
      highlight = ''3x engagement via full-funnel social'',
      metrics = [\<lparr>m_label = ''Engagement'', m_value = ''3x''\<rparr>,
                 \<lparr>m_label = ''Followers'', m_value = ''+120k''\<rparr>],
      tags = [''fashion'', ''social''],
      video_url = None,
      featured = True,
      performance_score = Some 88.0\<rparr>"

definition sample_nova :: CaseStudy where
  "sample_nova =
     \<lparr>brand = ''Nova Foods'',
      logo_url = Some ''https://dummyimage.com/80x80/eeeeee/000000&text=N'',
      industry = ''FMCG'',
      scope = [''Performance'', ''Influencer''],
      campaign_type = ''Paid'',
      headline = ''Retail lift with creator-led ads'',
      highlight = ''2.7x incremental sales in pilot markets'',
      metrics = [\<lparr>m_label = ''ROAS'', m_value = ''3.1x''\<rparr>,
                 \<lparr>m_label = ''Reach'', m_value = ''1.8M''\<rparr>],
      tags = [''fmcg'', ''retail''],
      video_url = None,
      featured = False,
      performance_score = Some 81.0\<rparr>"

definition samples :: "CaseStudy list" where
  "samples = [sample_aurora, sample_volt, sample_nova]"

text \<open>The loop \<open>for s in samples: create_document("casestudy", s); inserted += 1\<close>.\<close>

fun seed_loop :: "store option \<Rightarrow> CaseStudy list \<Rightarrow> int \<Rightarrow> (error + int) \<times> store option" where
  "seed_loop db [] inserted = (Inr inserted, db)"
| "seed_loop db (s # ss) inserted =
     (case create_document db ''casestudy'' s of
        (Inl e, db') \<Rightarrow> (Inl e, db')
      | (Inr _, db') \<Rightarrow> seed_loop db' ss (inserted + 1))"

record seed_response =
  status :: string
  inserted :: int

definition seed_demo_data :: "matcher \<Rightarrow> store option \<Rightarrow> (error + seed_response) \<times> store option" where
  "seed_demo_data rx db =
     (case get_documents rx db ''casestudy'' [] 1 of
        Inl e \<Rightarrow> (Inl e, db)
      | Inr existing \<Rightarrow>
          if existing \<noteq> [] then (Inr \<lparr>status = ''exists'', inserted = 0\<rparr>, db)
          else (case seed_loop db samples 0 of
                  (Inl e, db') \<Rightarrow> (Inl e, db')
                | (Inr n, db') \<Rightarrow> (Inr \<lparr>status = ''seeded'', inserted = n\<rparr>, db')))"

section \<open>Notions used to state the properties\<close>

text \<open>
  Case-insensitive containment: \<open>z\<close> occurs in \<open>s\<close> as a contiguous substring once the
  ASCII letters of both are put in lower case.
\<close>

definition ci_substring :: "string \<Rightarrow> string \<Rightarrow> bool" where
  "ci_substring z s = sublist (map lower_char z) (map lower_char s)"

text \<open>
  A matcher that reads every pattern literally: plain containment, case-insensitive
  under the option \<open>i\<close>.
\<close>

definition literal_matcher :: matcher where
  "literal_matcher p opts s = (if CHR ''i'' \<in> set opts then ci_substring p s else sublist p s)"







text \<open>The response record of a case study stored under identifier \<open>n\<close>.\<close>

definition out_of :: "nat \<Rightarrow> CaseStudy \<Rightarrow> CaseStudyOut" where
  "out_of n p =
     \<lparr>out_id = oid_str n,
      out_brand = brand p,
      out_logo_url = logo_url p,
      out_industry = industry p,
      out_scope = scope p,
      out_campaign_type = campaign_type p,
      out_headline = headline p,
      out_highlight = highlight p,
      out_metrics = metrics p,
      out_tags = tags p,
      out_featured = featured p,
      out_performance_score = performance_score p\<rparr>"

text \<open>
  The JSON object the endpoint emits for a response record (the declared fields of
  \<open>CaseStudyOut\<close>), and the reading of a key in a JSON object with an absent key read
  as null.
\<close>

definition CaseStudyOut_json :: "CaseStudyOut \<Rightarrow> dict" where
  "CaseStudyOut_json r =
     [(''id'', VStr (out_id r)),
      (''brand'', VStr (out_brand r)),
      (''logo_url'', dump_opt VStr (out_logo_url r)),
      (''industry'', VStr (out_industry r)),
      (''scope'', VList (map VStr (out_scope r))),
      (''campaign_type'', VStr (out_campaign_type r)),
      (''headline'', VStr (out_headline r)),
      (''highlight'', VStr (out_highlight r)),
      (''metrics'', VList (map dump_Metric (out_metrics r))),
      (''tags'', VList (map VStr (out_tags r))),
      (''featured'', VBool (out_featured r)),
      (''performance_score'', dump_opt VNum (out_performance_score r))]"


text \<open>
  A stored metric entry carries the label and the value of a \<open>Metric\<close>: it is a dict
  whose \<open>label\<close> and \<open>value\<close> keys hold them as strings.
\<close>

definition metric_entry :: "val \<Rightarrow> Metric \<Rightarrow> bool" where
  "metric_entry v m =
     (\<exists>d. v = VDict d \<and> map_of d ''label'' = Some (VStr (m_label m))
          \<and> map_of d ''value'' = Some (VStr (m_value m)))"

subsection \<open>Example data\<close>

text \<open>
  The library of the examples: it reads every string as a URL, as it is written, and
  converts no value to a float but a number. None of the examples turns on either.
\<close>

definition example_library :: library where
  "example_library = \<lparr>parse_url = (\<lambda>s. Some s), conv_float = (\<lambda>v. None)\<rparr>"

definition empty_store :: store where
  "empty_store = \<lparr>colls = [], next_oid = 0\<rparr>"

text \<open>A store that holds the first two seed records.\<close>

definition two_store :: store where
  "two_store = \<lparr>colls = [(''casestudy'', [stored_doc 0 sample_aurora, stored_doc 1 sample_volt])],
                next_oid = 2\<rparr>"

text \<open>
  The first seed record with a background video, a document with the required fields
  only, and the store as the seed operation leaves it.
\<close>

definition sample_with_video :: CaseStudy where
  "sample_with_video = sample_aurora\<lparr>video_url := Some ''https://cdn.example.com/aurora.mp4''\<rparr>"

definition minimal_doc :: sdoc where
  "minimal_doc =
     \<lparr>oid = Some 10,
      entries = [(''brand'', VStr ''Acme''), (''industry'', VStr ''Retail''),
                 (''campaign_type'', VStr ''Paid''), (''headline'', VStr ''More reach''),
                 (''highlight'', VStr ''2x'')]\<rparr>"

text \<open>A stored document whose \<open>featured\<close> is the string \<open>true\<close>.\<close>

definition string_flag_doc :: sdoc where
  "string_flag_doc =
     \<lparr>oid = Some 11,
      entries = [(''brand'', VStr ''Acme''), (''industry'', VStr ''Retail''),
                 (''campaign_type'', VStr ''Paid''), (''headline'', VStr ''More reach''),
                 (''highlight'', VStr ''2x''), (''featured'', VStr ''true'')]\<rparr>"

definition seeded_store :: store where
  "seeded_store =
     \<lparr>colls = [(''casestudy'',
                 [stored_doc 0 sample_aurora, stored_doc 1 sample_volt, stored_doc 2 sample_nova])],
      next_oid = 3\<rparr>"

text \<open>A handle whose \<open>list_collection_names()\<close> raises.\<close>

definition failing_handle :: db_handle where
  "failing_handle = \<lparr>name_attr = Some ''whitecircle'', list_collection_names = Inl ''connection refused''\<rparr>"

text \<open>A request body whose \<open>brand\<close> is the empty string, and the case study it validates to.\<close>

definition empty_brand_body :: dict where
  "empty_brand_body =
     [(''brand'', VStr ''''), (''industry'', VStr ''Retail''), (''campaign_type'', VStr ''Paid''),
      (''headline'', VStr ''More reach''), (''highlight'', VStr ''2x'')]"

definition empty_brand_study :: CaseStudy where
  "empty_brand_study =
     \<lparr>brand = '''', logo_url = None, industry = ''Retail'', scope = [], campaign_type = ''Paid'',
      headline = ''More reach'', highlight = ''2x'', metrics = [], tags = [], video_url = None,
      featured = False, performance_score = None\<rparr>"

text \<open>
  A request body whose \<open>featured\<close> is the string \<open>yes\<close>, and the case study it validates
  to.
\<close>

definition yes_body :: dict where
  "yes_body =
     [(''brand'', VStr ''Acme''), (''industry'', VStr ''Retail''), (''campaign_type'', VStr ''Paid''),
      (''headline'', VStr ''More reach''), (''highlight'', VStr ''2x''), (''featured'', VStr ''yes'')]"

definition yes_study :: CaseStudy where
  "yes_study =
     \<lparr>brand = ''Acme'', logo_url = None, industry = ''Retail'', scope = [], campaign_type = ''Paid'',
      headline = ''More reach'', highlight = ''2x'', metrics = [], tags = [], video_url = None,
      featured = True, performance_score = None\<rparr>"

section \<open>Auxiliary facts\<close>

subsection \<open>Shaping documents stored through the API\<close>

lemma as_list_str [simp]: "as_list as_str (VList (map VStr xs)) = Some xs"
  by (induction xs) (auto simp: as_list_def as_str_def)

lemma as_list_Metric [simp]: "as_list as_Metric (VList (map dump_Metric ms)) = Some ms"
  by (induction ms) (auto simp: as_list_def as_Metric_def dump_Metric_def)

lemma shape_stored_doc: "shape L (stored_doc n p) = Inr (out_of n p)"
  by (cases "logo_url p"; cases "performance_score p")
     (simp_all add: shape_def serialize_def stored_doc_def make_CaseStudyOut_def CaseStudyOut_errors_def
       failed_def required_def optional_def defaulted_def model_dump_def out_of_def as_str_def
       as_bool_def as_float_def dump_opt_def)


lemma length_shape_all: "shape_all L ds = Inr rs \<Longrightarrow> length rs = length ds"
  by (induction ds arbitrary: rs) (auto split: sum.splits)

subsection \<open>Reading the filters on a stored case study\<close>

lemma list_filters_append:
  "list_filters q i s c =
     (if truthy i then [(''industry'', Cond (Eq (VStr (the i))))] else [])
     @ (if truthy c then [(''campaign_type'', Cond (Eq (VStr (the c))))] else [])
     @ (if truthy s then [(''scope'', Cond (In [VStr (the s)]))] else [])
     @ (if truthy q then [(''$or'', Alternatives
                            [[(''brand'', Regex (the q) ''i'')],
                             [(''headline'', Regex (the q) ''i'')],
                             [(''highlight'', Regex (the q) ''i'')],
                             [(''tags'', Regex (the q) ''i'')]])] else [])"
  by (simp add: list_filters_def)

lemma matches_append: "matches rx (a @ b) d = (matches rx a d \<and> matches rx b d)"
  by (simp add: matches_def)

lemma matches_Nil: "matches rx [] d"
  by (simp add: matches_def)

lemma matches_if: "matches rx (if b then a else []) d = (b \<longrightarrow> matches rx a d)"
  by (simp add: matches_def)

lemma list_ex_VStr: "list_ex (\<lambda>e. case e of VStr s \<Rightarrow> P s | _ \<Rightarrow> False) (map VStr xs) = list_ex P xs"
  by (induction xs) auto

lemma list_ex_mem_VStr: "list_ex (\<lambda>e. e = VStr x) (map VStr xs) = (x \<in> set xs)"
  by (induction xs) auto

lemma matches_industry:
  "matches rx [(''industry'', Cond (Eq (VStr x)))] (stored_doc n p) = (industry p = x)"
  by (simp add: matches_def stored_doc_def model_dump_def)

lemma matches_campaign_type:
  "matches rx [(''campaign_type'', Cond (Eq (VStr x)))] (stored_doc n p) = (campaign_type p = x)"
  by (simp add: matches_def stored_doc_def model_dump_def)

lemma matches_scope:
  "matches rx [(''scope'', Cond (In [VStr x]))] (stored_doc n p) = (x \<in> set (scope p))"
  by (simp add: matches_def stored_doc_def model_dump_def list_ex_mem_VStr)

lemma matches_q:
  "matches rx [(''$or'', Alternatives
                  [[(''brand'', Regex z ''i'')], [(''headline'', Regex z ''i'')],
                   [(''highlight'', Regex z ''i'')], [(''tags'', Regex z ''i'')]])] (stored_doc n p)
   = (rx z ''i'' (brand p) \<or> rx z ''i'' (headline p) \<or> rx z ''i'' (highlight p)
      \<or> list_ex (rx z ''i'') (tags p))"
  by (simp add: matches_def holds_all_def stored_doc_def model_dump_def list_ex_VStr)

lemma matches_list_filters:
  "matches rx (list_filters q i s c) (stored_doc n p) =
     ((truthy i \<longrightarrow> industry p = the i)
      \<and> (truthy c \<longrightarrow> campaign_type p = the c)
      \<and> (truthy s \<longrightarrow> the s \<in> set (scope p))
      \<and> (truthy q \<longrightarrow> rx (the q) ''i'' (brand p) \<or> rx (the q) ''i'' (headline p)
             \<or> rx (the q) ''i'' (highlight p) \<or> list_ex (rx (the q) ''i'') (tags p)))"
  unfolding list_filters_append matches_append matches_if
  by (simp only: matches_industry matches_campaign_type matches_scope matches_q)

section \<open>The filter builder\<close>

text \<open>
  C2 (as amended). For every combination of query parameters, the filter that
  \<open>list_case_studies\<close> builds holds of a stored case study exactly when all of these
  hold: its industry equals the given one when \<open>industry\<close> is supplied as a non-empty
  string, its campaign type equals the given one when \<open>campaign_type\<close> is supplied as a
  non-empty string, its scope sequence contains the given term when \<open>scope\<close> is supplied
  as a non-empty string, and the free-text clause when \<open>q\<close> is. With no parameters the
  filter is empty, and the empty filter matches every document.
\<close>

theorem list_filters_conjunction:
  "(matches rx (list_filters q i s c) (stored_doc n p) \<longleftrightarrow>
      (truthy i \<longrightarrow> industry p = the i)
      \<and> (truthy c \<longrightarrow> campaign_type p = the c)
      \<and> (truthy s \<longrightarrow> the s \<in> set (scope p))
      \<and> (truthy q \<longrightarrow> rx (the q) ''i'' (brand p) \<or> rx (the q) ''i'' (headline p)
             \<or> rx (the q) ''i'' (highlight p) \<or> list_ex (rx (the q) ''i'') (tags p)))
   \<and> list_filters None None None None = []
   \<and> matches rx [] d"
proof (intro conjI)
  show "list_filters None None None None = []"
    by (simp add: list_filters_append truthy_def)
qed (rule matches_list_filters, rule matches_Nil)

text \<open>The statement at the first seed record, for a filter on industry and scope.\<close>

theorem list_filters_conjunction_witness:
  "truthy (Some ''Beauty'') \<and> truthy (Some ''UGC'') \<and> \<not> truthy None
   \<and> matches literal_matcher (list_filters None (Some ''Beauty'') (Some ''UGC'') None)
        (stored_doc 0 (sample_aurora))
   \<and> \<not> matches literal_matcher (list_filters None (Some ''Fashion'') (Some ''UGC'') None)
        (stored_doc 0 (sample_aurora))"
  using list_filters_conjunction [of literal_matcher None "Some ''Beauty''" "Some ''UGC''" None 0 "sample_aurora"]
    list_filters_conjunction [of literal_matcher None "Some ''Fashion''" "Some ''UGC''" None 0 "sample_aurora"]
  by (simp add: truthy_def sample_aurora_def)

text \<open>
  C2 as stated fails when a parameter is supplied as the empty string: no constraint on
  \<open>industry\<close> is built, and a record whose industry is not empty matches.
\<close>

theorem list_filters_empty_industry_counterexample:
  "list_filters None (Some '''') None None = []
   \<and> matches literal_matcher (list_filters None (Some '''') None None) (stored_doc 0 (sample_aurora))
   \<and> industry (sample_aurora) \<noteq> ''''"
  by (simp add: list_filters_append truthy_def matches_Nil sample_aurora_def)

text \<open>
  C10. A query parameter among \<open>q\<close>, \<open>industry\<close>, \<open>scope\<close> and \<open>campaign_type\<close> that is
  supplied as the empty string is treated like one that is omitted: the filter built is
  the same, and so is the answer to the request.
\<close>

theorem empty_parameter_as_omitted:
  "list_filters (Some '''') i s c = list_filters None i s c
   \<and> list_filters q (Some '''') s c = list_filters q None s c
   \<and> list_filters q i (Some '''') c = list_filters q i None c
   \<and> list_filters q i s (Some '''') = list_filters q i s None
   \<and> list_case_studies_request L rx db (Some '''') i s c l = list_case_studies_request L rx db None i s c l
   \<and> list_case_studies_request L rx db q (Some '''') s c l = list_case_studies_request L rx db q None s c l
   \<and> list_case_studies_request L rx db q i (Some '''') c l = list_case_studies_request L rx db q i None c l
   \<and> list_case_studies_request L rx db q i s (Some '''') l = list_case_studies_request L rx db q i s None l"
proof -
  have f: "list_filters (Some '''') i s c = list_filters None i s c"
    "list_filters q (Some '''') s c = list_filters q None s c"
    "list_filters q i (Some '''') c = list_filters q i None c"
    "list_filters q i s (Some '''') = list_filters q i s None"
    for q i s c
    by (simp_all add: list_filters_append truthy_def)
  have h: "list_case_studies L rx db (Some '''') i s c n = list_case_studies L rx db None i s c n"
    "list_case_studies L rx db q (Some '''') s c n = list_case_studies L rx db q None s c n"
    "list_case_studies L rx db q i (Some '''') c n = list_case_studies L rx db q i None c n"
    "list_case_studies L rx db q i s (Some '''') n = list_case_studies L rx db q i s None n"
    for q i s c n
    by (simp_all only: list_case_studies_def f)
  show ?thesis
    by (simp only: f h list_case_studies_request_def simp_thms)
qed

text \<open>The statement at a request that filters on industry only.\<close>

theorem empty_parameter_as_omitted_witness:
  "list_filters (Some '''') (Some ''Beauty'') (Some '''') None = [(''industry'', Cond (Eq (VStr ''Beauty'')))]
   \<and> list_filters None (Some ''Beauty'') None None = [(''industry'', Cond (Eq (VStr ''Beauty'')))]
   \<and> list_case_studies_request example_library literal_matcher None (Some '''') None None None (Some 5) = Inl StoreUnavailable
   \<and> list_case_studies_request example_library literal_matcher None None None None None (Some 5) = Inl StoreUnavailable"
  using empty_parameter_as_omitted [of "Some ''Beauty''" "Some ''''" None None example_library
      literal_matcher None "Some 5"]
  by (simp add: list_filters_append truthy_def list_case_studies_request_def list_case_studies_def
        get_documents_def)

section \<open>Free-text search\<close>












section \<open>What the field checks accept\<close>

lemma as_str_iff: "as_str v = Some s \<longleftrightarrow> v = VStr s"
  by (cases v) (auto simp: as_str_def)

lemma as_bool_VBool: "as_bool (VBool b) = Some b"
  by (simp add: as_bool_def)

lemma as_bool_Some_iff:
  "as_bool v = Some b \<longleftrightarrow>
     (v = VBool b \<or> v = VNum (if b then 1 else 0) \<or> (\<exists>s. v = VStr s \<and> bool_of_string s = Some b))"
  by (cases v) (auto simp: as_bool_def)

lemma as_bool_None_iff:
  "as_bool v = None \<longleftrightarrow>
     (\<forall>b. v \<noteq> VBool b) \<and> v \<noteq> VNum 0 \<and> v \<noteq> VNum 1 \<and> (\<forall>s. v = VStr s \<longrightarrow> bool_of_string s = None)"
  by (cases v) (auto simp: as_bool_def)

lemma as_float_Some_iff:
  "as_float L v = Some x \<longleftrightarrow> (v = VNum x \<or> ((\<forall>y. v \<noteq> VNum y) \<and> conv_float L v = Some x))"
  by (cases v) (auto simp: as_float_def)

lemma as_Metric_iff: "as_Metric v = Some m \<longleftrightarrow> metric_entry v m"
proof (cases v)
  case (VDict d)
  show ?thesis
  proof (cases "map_of d ''label''")
    case None
    with VDict show ?thesis by (simp add: as_Metric_def metric_entry_def)
  next
    case l: (Some a)
    show ?thesis
    proof (cases "map_of d ''value''")
      case None
      with VDict l show ?thesis by (cases a) (simp_all add: as_Metric_def metric_entry_def)
    next
      case (Some b)
      with VDict l show ?thesis
        by (cases a; cases b; cases m) (auto simp: as_Metric_def metric_entry_def)
    qed
  qed
qed (simp_all add: as_Metric_def metric_entry_def)

lemma all_some_iff: "all_some (map f vs) = Some ys \<longleftrightarrow> list_all2 (\<lambda>v y. f v = Some y) vs ys"
proof (induction vs arbitrary: ys)
  case Nil
  then show ?case by auto
next
  case (Cons v vs)
  show ?case
    by (cases ys) (auto simp: Cons.IH [symmetric] split: option.splits)
qed

lemma as_list_iff: "as_list f v = Some ys \<longleftrightarrow> (\<exists>vs. v = VList vs \<and> list_all2 (\<lambda>v y. f v = Some y) vs ys)"
  by (cases v) (simp_all add: as_list_def all_some_iff)

lemma list_all2_VStr: "list_all2 (\<lambda>v y. v = VStr y) vs ys \<longleftrightarrow> vs = map VStr ys"
  by (induction vs arbitrary: ys) (auto simp: list_all2_Cons1)

lemma as_list_str_iff: "as_list as_str v = Some ys \<longleftrightarrow> v = VList (map VStr ys)"
  by (auto simp: as_list_iff as_str_iff list_all2_VStr)

lemma as_list_Metric_iff:
  "as_list as_Metric v = Some ms \<longleftrightarrow> (\<exists>vs. v = VList vs \<and> list_all2 metric_entry vs ms)"
  by (simp add: as_list_iff as_Metric_iff)

lemma required_str_iff: "required as_str d k = Some s \<longleftrightarrow> map_of d k = Some (VStr s)"
  by (simp add: required_def as_str_iff split: option.splits)

lemma optional_str_iff:
  "optional as_str d k = Some x \<longleftrightarrow>
     (case map_of d k of None \<Rightarrow> x = None | Some v \<Rightarrow> v = dump_opt VStr x)"
  by (cases x) (auto simp: optional_def dump_opt_def as_str_def split: option.splits val.splits)

lemma optional_float_iff:
  "optional (as_float L) d k = Some x \<longleftrightarrow>
     (case map_of d k of
        None \<Rightarrow> x = None
      | Some v \<Rightarrow>
          if v = VNull then x = None
          else (\<exists>y. x = Some y \<and> (v = VNum y \<or> ((\<forall>z. v \<noteq> VNum z) \<and> conv_float L v = Some y))))"
proof (cases "map_of d k")
  case None
  then show ?thesis by (auto simp: optional_def)
next
  case (Some v)
  show ?thesis
  proof (cases "v = VNull")
    case True
    with Some show ?thesis by (auto simp: optional_def)
  next
    case False
    with Some have "optional (as_float L) d k
        = (case as_float L v of None \<Rightarrow> None | Some y \<Rightarrow> Some (Some y))"
      by (cases v) (simp_all add: optional_def)
    then have "optional (as_float L) d k = Some x \<longleftrightarrow> (\<exists>y. x = Some y \<and> as_float L v = Some y)"
      by (cases "as_float L v"; cases x) auto
    with Some False show ?thesis
      by (simp add: as_float_Some_iff)
  qed
qed

lemma defaulted_str_list_iff:
  "defaulted [] (as_list as_str) d k = Some xs \<longleftrightarrow>
     (case map_of d k of None \<Rightarrow> xs = [] | Some v \<Rightarrow> v = VList (map VStr xs))"
  by (auto simp: defaulted_def as_list_str_iff split: option.splits)

lemma defaulted_Metric_list_iff:
  "defaulted [] (as_list as_Metric) d k = Some ms \<longleftrightarrow>
     (case map_of d k of None \<Rightarrow> ms = []
      | Some v \<Rightarrow> (\<exists>vs. v = VList vs \<and> list_all2 metric_entry vs ms))"
  by (auto simp: defaulted_def as_list_Metric_iff split: option.splits)

lemma defaulted_bool_iff:
  "defaulted False as_bool d k = Some b \<longleftrightarrow>
     (case map_of d k of
        None \<Rightarrow> \<not> b
      | Some v \<Rightarrow> v = VBool b \<or> v = VNum (if b then 1 else 0)
                  \<or> (\<exists>s. v = VStr s \<and> bool_of_string s = Some b))"
  by (auto simp: defaulted_def as_bool_Some_iff split: option.splits)

lemma failed_Nil_iff: "failed cs = [] \<longleftrightarrow> list_all snd cs"
  by (induction cs) (auto simp: failed_def)

lemma the_eq_iff: "a \<noteq> None \<Longrightarrow> the a = x \<longleftrightarrow> a = Some x"
  by auto

lemma make_CaseStudyOut_iff:
  "make_CaseStudyOut L d = Inr r \<longleftrightarrow>
     required as_str d ''id'' = Some (out_id r)
     \<and> required as_str d ''brand'' = Some (out_brand r)
     \<and> optional as_str d ''logo_url'' = Some (out_logo_url r)
     \<and> required as_str d ''industry'' = Some (out_industry r)
     \<and> defaulted [] (as_list as_str) d ''scope'' = Some (out_scope r)
     \<and> required as_str d ''campaign_type'' = Some (out_campaign_type r)
     \<and> required as_str d ''headline'' = Some (out_headline r)
     \<and> required as_str d ''highlight'' = Some (out_highlight r)
     \<and> defaulted [] (as_list as_Metric) d ''metrics'' = Some (out_metrics r)
     \<and> defaulted [] (as_list as_str) d ''tags'' = Some (out_tags r)
     \<and> defaulted False as_bool d ''featured'' = Some (out_featured r)
     \<and> optional (as_float L) d ''performance_score'' = Some (out_performance_score r)"
proof (cases "CaseStudyOut_errors L d = []")
  case True
  then have ok: "required as_str d ''id'' \<noteq> None" "required as_str d ''brand'' \<noteq> None"
    "optional as_str d ''logo_url'' \<noteq> None" "required as_str d ''industry'' \<noteq> None"
    "defaulted [] (as_list as_str) d ''scope'' \<noteq> None" "required as_str d ''campaign_type'' \<noteq> None"
    "required as_str d ''headline'' \<noteq> None" "required as_str d ''highlight'' \<noteq> None"
    "defaulted [] (as_list as_Metric) d ''metrics'' \<noteq> None"
    "defaulted [] (as_list as_str) d ''tags'' \<noteq> None"
    "defaulted False as_bool d ''featured'' \<noteq> None"
    "optional (as_float L) d ''performance_score'' \<noteq> None"
    unfolding CaseStudyOut_errors_def failed_Nil_iff by simp_all
  show ?thesis
    by (cases r) (simp add: make_CaseStudyOut_def True the_eq_iff [OF ok(1)] the_eq_iff [OF ok(2)]
        the_eq_iff [OF ok(3)] the_eq_iff [OF ok(4)] the_eq_iff [OF ok(5)] the_eq_iff [OF ok(6)]
        the_eq_iff [OF ok(7)] the_eq_iff [OF ok(8)] the_eq_iff [OF ok(9)] the_eq_iff [OF ok(10)]
        the_eq_iff [OF ok(11)] the_eq_iff [OF ok(12)])
next
  case False
  then have "\<not> list_all snd
     [(''id'', required as_str d ''id'' \<noteq> None),
      (''brand'', required as_str d ''brand'' \<noteq> None),
      (''logo_url'', optional as_str d ''logo_url'' \<noteq> None),
      (''industry'', required as_str d ''industry'' \<noteq> None),
      (''scope'', defaulted [] (as_list as_str) d ''scope'' \<noteq> None),
      (''campaign_type'', required as_str d ''campaign_type'' \<noteq> None),
      (''headline'', required as_str d ''headline'' \<noteq> None),
      (''highlight'', required as_str d ''highlight'' \<noteq> None),
      (''metrics'', defaulted [] (as_list as_Metric) d ''metrics'' \<noteq> None),
      (''tags'', defaulted [] (as_list as_str) d ''tags'' \<noteq> None),
      (''featured'', defaulted False as_bool d ''featured'' \<noteq> None),
      (''performance_score'', optional (as_float L) d ''performance_score'' \<noteq> None)]"
    unfolding CaseStudyOut_errors_def failed_Nil_iff .
  then have "\<not> (required as_str d ''id'' = Some (out_id r)
     \<and> required as_str d ''brand'' = Some (out_brand r)
     \<and> optional as_str d ''logo_url'' = Some (out_logo_url r)
     \<and> required as_str d ''industry'' = Some (out_industry r)
     \<and> defaulted [] (as_list as_str) d ''scope'' = Some (out_scope r)
     \<and> required as_str d ''campaign_type'' = Some (out_campaign_type r)
     \<and> required as_str d ''headline'' = Some (out_headline r)
     \<and> required as_str d ''highlight'' = Some (out_highlight r)
     \<and> defaulted [] (as_list as_Metric) d ''metrics'' = Some (out_metrics r)
     \<and> defaulted [] (as_list as_str) d ''tags'' = Some (out_tags r)
     \<and> defaulted False as_bool d ''featured'' = Some (out_featured r)
     \<and> optional (as_float L) d ''performance_score'' = Some (out_performance_score r))"
    by auto
  moreover have "make_CaseStudyOut L d \<noteq> Inr r"
    using False by (simp add: make_CaseStudyOut_def)
  ultimately show ?thesis by blast
qed

section \<open>The response shaper\<close>

lemma map_of_serialize: "k \<noteq> ''id'' \<Longrightarrow> map_of (serialize d) k = map_of (entries d) k"
  by (simp add: serialize_def update_conv' split: option.splits)

lemma map_of_serialize_id: "oid d = Some n \<Longrightarrow> map_of (serialize d) ''id'' = Some (VStr (oid_str n))"
  by (simp add: serialize_def update_conv')

text \<open>
  C6 (as amended). For a stored document with identifier \<open>n\<close>, the response shaper yields
  the record \<open>r\<close> exactly when: \<open>id\<close> is the string form of \<open>n\<close>; each of the required
  fields \<open>brand\<close>, \<open>industry\<close>, \<open>campaign_type\<close>, \<open>headline\<close>, \<open>highlight\<close> is stored as the
  string that \<open>r\<close> holds; each of \<open>scope\<close>, \<open>tags\<close>, \<open>metrics\<close>, \<open>logo_url\<close>, when stored, is
  passed through as it is; a stored \<open>featured\<close> is passed through when it is a boolean,
  and otherwise is the number 0 or 1 or a string that reads as the boolean \<open>r\<close> holds; a
  stored \<open>performance_score\<close> is passed through when it is null or a number, and
  otherwise is a value the library converts to the float \<open>r\<close> holds; and each absent
  optional field is the empty sequence (\<open>scope\<close>, \<open>tags\<close>, \<open>metrics\<close>), false (\<open>featured\<close>) or
  null (\<open>logo_url\<close>, \<open>performance_score\<close>). These are the fields \<open>CaseStudyOut\<close>
  declares; no other key of the document bears on the result.
\<close>

theorem response_shape:
  assumes "oid d = Some n"
  shows "shape L d = Inr r \<longleftrightarrow>
     out_id r = oid_str n
     \<and> map_of (entries d) ''brand'' = Some (VStr (out_brand r))
     \<and> map_of (entries d) ''industry'' = Some (VStr (out_industry r))
     \<and> map_of (entries d) ''campaign_type'' = Some (VStr (out_campaign_type r))
     \<and> map_of (entries d) ''headline'' = Some (VStr (out_headline r))
     \<and> map_of (entries d) ''highlight'' = Some (VStr (out_highlight r))
     \<and> (case map_of (entries d) ''scope'' of
           None \<Rightarrow> out_scope r = []
         | Some v \<Rightarrow> v = VList (map VStr (out_scope r)))
     \<and> (case map_of (entries d) ''tags'' of
           None \<Rightarrow> out_tags r = []
         | Some v \<Rightarrow> v = VList (map VStr (out_tags r)))
     \<and> (case map_of (entries d) ''metrics'' of
           None \<Rightarrow> out_metrics r = []
         | Some v \<Rightarrow> (\<exists>vs. v = VList vs \<and> list_all2 metric_entry vs (out_metrics r)))
     \<and> (case map_of (entries d) ''logo_url'' of
           None \<Rightarrow> out_logo_url r = None
         | Some v \<Rightarrow> v = dump_opt VStr (out_logo_url r))
     \<and> (case map_of (entries d) ''featured'' of
           None \<Rightarrow> \<not> out_featured r
         | Some v \<Rightarrow>
             v = VBool (out_featured r) \<or> v = VNum (if out_featured r then 1 else 0)
             \<or> (\<exists>s. v = VStr s \<and> bool_of_string s = Some (out_featured r)))
     \<and> (case map_of (entries d) ''performance_score'' of
           None \<Rightarrow> out_performance_score r = None
         | Some v \<Rightarrow>
             if v = VNull then out_performance_score r = None
             else (\<exists>y. out_performance_score r = Some y
                       \<and> (v = VNum y \<or> ((\<forall>z. v \<noteq> VNum z) \<and> conv_float L v = Some y))))"
proof -
  have i: "map_of (serialize d) ''id'' = Some (VStr (oid_str n))"
    using assms by (rule map_of_serialize_id)
  have k: "map_of (serialize d) ''brand'' = map_of (entries d) ''brand''"
    "map_of (serialize d) ''industry'' = map_of (entries d) ''industry''"
    "map_of (serialize d) ''campaign_type'' = map_of (entries d) ''campaign_type''"
    "map_of (serialize d) ''headline'' = map_of (entries d) ''headline''"
    "map_of (serialize d) ''highlight'' = map_of (entries d) ''highlight''"
    "map_of (serialize d) ''scope'' = map_of (entries d) ''scope''"
    "map_of (serialize d) ''tags'' = map_of (entries d) ''tags''"
    "map_of (serialize d) ''metrics'' = map_of (entries d) ''metrics''"
    "map_of (serialize d) ''featured'' = map_of (entries d) ''featured''"
    "map_of (serialize d) ''logo_url'' = map_of (entries d) ''logo_url''"
    "map_of (serialize d) ''performance_score'' = map_of (entries d) ''performance_score''"
    by (simp_all add: map_of_serialize)
  show "shape L d = Inr r \<longleftrightarrow>
     out_id r = oid_str n
     \<and> map_of (entries d) ''brand'' = Some (VStr (out_brand r))
     \<and> map_of (entries d) ''industry'' = Some (VStr (out_industry r))
     \<and> map_of (entries d) ''campaign_type'' = Some (VStr (out_campaign_type r))
     \<and> map_of (entries d) ''headline'' = Some (VStr (out_headline r))
     \<and> map_of (entries d) ''highlight'' = Some (VStr (out_highlight r))
     \<and> (case map_of (entries d) ''scope'' of
           None \<Rightarrow> out_scope r = []
         | Some v \<Rightarrow> v = VList (map VStr (out_scope r)))
     \<and> (case map_of (entries d) ''tags'' of
           None \<Rightarrow> out_tags r = []
         | Some v \<Rightarrow> v = VList (map VStr (out_tags r)))
     \<and> (case map_of (entries d) ''metrics'' of
           None \<Rightarrow> out_metrics r = []
         | Some v \<Rightarrow> (\<exists>vs. v = VList vs \<and> list_all2 metric_entry vs (out_metrics r)))
     \<and> (case map_of (entries d) ''logo_url'' of
           None \<Rightarrow> out_logo_url r = None
         | Some v \<Rightarrow> v = dump_opt VStr (out_logo_url r))
     \<and> (case map_of (entries d) ''featured'' of
           None \<Rightarrow> \<not> out_featured r
         | Some v \<Rightarrow>
             v = VBool (out_featured r) \<or> v = VNum (if out_featured r then 1 else 0)
             \<or> (\<exists>s. v = VStr s \<and> bool_of_string s = Some (out_featured r)))
     \<and> (case map_of (entries d) ''performance_score'' of
           None \<Rightarrow> out_performance_score r = None
         | Some v \<Rightarrow>
             if v = VNull then out_performance_score r = None
             else (\<exists>y. out_performance_score r = Some y
                       \<and> (v = VNum y \<or> ((\<forall>z. v \<noteq> VNum z) \<and> conv_float L v = Some y))))"
    unfolding shape_def make_CaseStudyOut_iff required_str_iff optional_str_iff optional_float_iff
      defaulted_str_list_iff defaulted_Metric_list_iff defaulted_bool_iff i k
    by auto
qed

text \<open>
  The statement at a document that stores the required fields only: every optional field
  takes its default.
\<close>

theorem response_shape_witness:
  "oid minimal_doc = Some 10
   \<and> shape example_library minimal_doc =
       Inr \<lparr>out_id = oid_str 10, out_brand = ''Acme'', out_logo_url = None, out_industry = ''Retail'',
            out_scope = [], out_campaign_type = ''Paid'', out_headline = ''More reach'',
            out_highlight = ''2x'', out_metrics = [], out_tags = [], out_featured = False,
            out_performance_score = None\<rparr>"
proof -
  have o: "oid minimal_doc = Some 10"
    by (simp add: minimal_doc_def)
  show ?thesis
    using o response_shape [OF o, of example_library
        "\<lparr>out_id = oid_str 10, out_brand = ''Acme'', out_logo_url = None, out_industry = ''Retail'',
            out_scope = [], out_campaign_type = ''Paid'', out_headline = ''More reach'',
            out_highlight = ''2x'', out_metrics = [], out_tags = [], out_featured = False,
            out_performance_score = None\<rparr>"]
    by (simp add: minimal_doc_def)
qed

text \<open>
  C6 as stated fails for \<open>video_url\<close>: a stored document that has one is shaped into the
  same record as the document without it, and the emitted object has no such key. It
  also fails for a field stored with a value that the response model converts: a
  \<open>featured\<close> stored as the string \<open>true\<close> is returned as the boolean.
\<close>

theorem response_shape_counterexample:
  "map_of (entries (stored_doc 0 sample_with_video)) ''video_url''
     = Some (VStr ''https://cdn.example.com/aurora.mp4'')
   \<and> shape example_library (stored_doc 0 sample_with_video) = Inr (out_of 0 sample_aurora)
   \<and> map_of (CaseStudyOut_json (out_of 0 sample_aurora)) ''video_url'' = None
   \<and> shape example_library (stored_doc 0 sample_aurora) = Inr (out_of 0 sample_aurora)
   \<and> map_of (entries (stored_doc 0 sample_aurora)) ''video_url'' = Some VNull
   \<and> map_of (entries string_flag_doc) ''featured'' = Some (VStr ''true'')
   \<and> shape example_library string_flag_doc =
       Inr \<lparr>out_id = oid_str 11, out_brand = ''Acme'', out_logo_url = None, out_industry = ''Retail'',
            out_scope = [], out_campaign_type = ''Paid'', out_headline = ''More reach'',
            out_highlight = ''2x'', out_metrics = [], out_tags = [], out_featured = True,
            out_performance_score = None\<rparr>"
proof -
  have "out_of 0 sample_with_video = out_of 0 sample_aurora"
    by (simp add: out_of_def sample_with_video_def)
  then have a: "shape example_library (stored_doc 0 sample_with_video) = Inr (out_of 0 sample_aurora)"
    using shape_stored_doc [of example_library 0 sample_with_video] by simp
  have b: "map_of (entries (stored_doc 0 sample_with_video)) ''video_url''
     = Some (VStr ''https://cdn.example.com/aurora.mp4'')"
    by (simp add: stored_doc_def model_dump_def sample_with_video_def dump_opt_def)
  have c: "map_of (CaseStudyOut_json (out_of 0 sample_aurora)) ''video_url'' = None"
    by (simp add: CaseStudyOut_json_def)
  have d: "map_of (entries (stored_doc 0 sample_aurora)) ''video_url'' = Some VNull"
    by (simp add: stored_doc_def model_dump_def sample_aurora_def dump_opt_def)
  have e: "map_of (entries string_flag_doc) ''featured'' = Some (VStr ''true'')"
    by (simp add: string_flag_doc_def)
  have t: "as_bool (VStr ''true'') = Some True"
    by (simp add: as_bool_def bool_of_string_def lower_char_def)
  have f: "shape example_library string_flag_doc =
       Inr \<lparr>out_id = oid_str 11, out_brand = ''Acme'', out_logo_url = None, out_industry = ''Retail'',
            out_scope = [], out_campaign_type = ''Paid'', out_headline = ''More reach'',
            out_highlight = ''2x'', out_metrics = [], out_tags = [], out_featured = True,
            out_performance_score = None\<rparr>"
    by (simp add: shape_def serialize_def string_flag_doc_def make_CaseStudyOut_def
          CaseStudyOut_errors_def failed_def required_def optional_def defaulted_def as_str_def t)
  show ?thesis
    using a b c d e f shape_stored_doc [of example_library 0 sample_aurora] by simp
qed

section \<open>The featured list\<close>

lemma matches_featured:
  "matches rx [(''featured'', Cond (Eq (VBool True)))] d
     \<longleftrightarrow> map_of (entries d) ''featured'' = Some (VBool True)"
  by (cases "map_of (entries d) ''featured''") (auto simp: matches_def)

lemma shape_featured:
  assumes "shape L d = Inr r" and "map_of (entries d) ''featured'' = Some (VBool b)"
  shows "out_featured r = b"
proof -
  have "defaulted False as_bool (serialize d) ''featured'' = Some (out_featured r)"
    using assms(1) by (simp add: shape_def make_CaseStudyOut_iff)
  then show ?thesis
    using assms(2) by (simp add: defaulted_bool_iff map_of_serialize as_bool_VBool)
qed

lemma shape_all_set:
  "shape_all L ds = Inr rs \<Longrightarrow> r \<in> set rs \<Longrightarrow> \<exists>d\<in>set ds. shape L d = Inr r"
  by (induction ds arbitrary: rs) (auto split: sum.splits)

text \<open>
  C9. Every record the featured-list operation returns has \<open>featured\<close> true.
\<close>

theorem featured_only:
  assumes "featured_case_studies L rx db limit = Inr outs"
  shows "\<forall>r\<in>set outs. out_featured r"
proof
  fix r assume r: "r \<in> set outs"
  from assms obtain docs where
    g: "get_documents rx db ''casestudy'' [(''featured'', Cond (Eq (VBool True)))] limit = Inr docs"
    and s: "shape_all L docs = Inr outs"
    by (auto simp: featured_case_studies_def split: sum.splits)
  from shape_all_set [OF s r] obtain d where d: "d \<in> set docs" "shape L d = Inr r"
    by blast
  from g d(1) have "matches rx [(''featured'', Cond (Eq (VBool True)))] d"
    by (auto simp: get_documents_def split: option.splits dest: in_set_takeD)
  then have "map_of (entries d) ''featured'' = Some (VBool True)"
    by (simp add: matches_featured)
  with d(2) show "out_featured r"
    using shape_featured by simp
qed

lemma featured_seeded:
  "featured_case_studies L literal_matcher (Some seeded_store) 6
     = Inr [out_of 0 sample_aurora, out_of 1 sample_volt]"
proof -
  have f: "matches rx [(''featured'', Cond (Eq (VBool True)))] (stored_doc n p) = featured p" for rx n p
    by (simp add: matches_featured stored_doc_def model_dump_def)
  have "featured sample_aurora" "featured sample_volt" "\<not> featured sample_nova"
    by (simp_all add: sample_aurora_def sample_volt_def sample_nova_def)
  then show ?thesis
    by (simp add: featured_case_studies_def get_documents_def coll_def seeded_store_def f
          shape_stored_doc)
qed

text \<open>
  The statement at the seeded store: the two featured seed records are returned, the third
  is not.
\<close>

theorem featured_only_witness:
  "featured_case_studies example_library literal_matcher (Some seeded_store) 6
     = Inr [out_of 0 sample_aurora, out_of 1 sample_volt]
   \<and> out_featured (out_of 0 sample_aurora) \<and> out_featured (out_of 1 sample_volt)"
  using featured_only [OF featured_seeded] featured_seeded by simp

section \<open>The limit\<close>

lemma length_get_documents:
  "get_documents rx db name qry limit = Inr docs \<Longrightarrow> 0 \<le> limit \<Longrightarrow> int (length docs) \<le> limit"
  by (auto simp: get_documents_def split: option.splits)

text \<open>
  C7. A list request answered with records returns no more of them than the limit in
  force (the requested one, else 24), and so does a featured request (else 6). A list
  request whose limit is outside 1..100 and a featured request whose limit is outside
  1..12 are answered with a validation error whatever the store is, also when no store
  is available: the store is not consulted.
\<close>

theorem limit_bounds:
  "(list_case_studies_request L rx db q i s c limit = Inr outs
      \<longrightarrow> int (length outs) \<le> (case limit of None \<Rightarrow> 24 | Some l \<Rightarrow> l))
   \<and> (featured_case_studies_request L rx db limit = Inr outs'
      \<longrightarrow> int (length outs') \<le> (case limit of None \<Rightarrow> 6 | Some l \<Rightarrow> l))
   \<and> (l < 1 \<or> 100 < l
      \<longrightarrow> list_case_studies_request L rx db q i s c (Some l) = Inl (RequestValidationError [''limit'']))
   \<and> (l < 1 \<or> 12 < l
      \<longrightarrow> featured_case_studies_request L rx db (Some l) = Inl (RequestValidationError [''limit'']))"
proof (intro conjI impI)
  assume a: "list_case_studies_request L rx db q i s c limit = Inr outs"
  define n where "n = (case limit of None \<Rightarrow> 24 | Some l \<Rightarrow> l)"
  from a have n: "1 \<le> n" and b: "list_case_studies L rx db q i s c n = Inr outs"
    by (auto simp: list_case_studies_request_def n_def Let_def split: if_splits)
  from b obtain docs where
    g: "get_documents rx db ''casestudy'' (list_filters q i s c) n = Inr docs"
    and s: "shape_all L docs = Inr outs"
    by (auto simp: list_case_studies_def split: sum.splits)
  from length_get_documents [OF g] n length_shape_all [OF s]
  show "int (length outs) \<le> (case limit of None \<Rightarrow> 24 | Some l \<Rightarrow> l)"
    by (simp add: n_def)
next
  assume a: "featured_case_studies_request L rx db limit = Inr outs'"
  define n where "n = (case limit of None \<Rightarrow> 6 | Some l \<Rightarrow> l)"
  from a have n: "1 \<le> n" and b: "featured_case_studies L rx db n = Inr outs'"
    by (auto simp: featured_case_studies_request_def n_def Let_def split: if_splits)
  from b obtain docs where
    g: "get_documents rx db ''casestudy'' [(''featured'', Cond (Eq (VBool True)))] n = Inr docs"
    and s: "shape_all L docs = Inr outs'"
    by (auto simp: featured_case_studies_def split: sum.splits)
  from length_get_documents [OF g] n length_shape_all [OF s]
  show "int (length outs') \<le> (case limit of None \<Rightarrow> 6 | Some l \<Rightarrow> l)"
    by (simp add: n_def)
next
  assume "l < 1 \<or> 100 < l"
  then show "list_case_studies_request L rx db q i s c (Some l) = Inl (RequestValidationError [''limit''])"
    by (auto simp: list_case_studies_request_def)
next
  assume "l < 1 \<or> 12 < l"
  then show "featured_case_studies_request L rx db (Some l) = Inl (RequestValidationError [''limit''])"
    by (auto simp: featured_case_studies_request_def)
qed

text \<open>
  The statement at limits 101 and 0 with no store at all, and at limit 1 on the seeded
  store.
\<close>

theorem limit_bounds_witness:
  "list_case_studies_request example_library literal_matcher None None None None None (Some 101)
     = Inl (RequestValidationError [''limit''])
   \<and> featured_case_studies_request example_library literal_matcher None (Some 0)
     = Inl (RequestValidationError [''limit''])
   \<and> featured_case_studies_request example_library literal_matcher (Some seeded_store) (Some 1)
     = Inr [out_of 0 sample_aurora]
   \<and> int (length [out_of 0 sample_aurora]) \<le> 1"
proof -
  have f: "matches rx [(''featured'', Cond (Eq (VBool True)))] (stored_doc n p) = featured p" for rx n p
    by (simp add: matches_featured stored_doc_def model_dump_def)
  have "featured sample_aurora"
    by (simp add: sample_aurora_def)
  then have r: "featured_case_studies_request example_library literal_matcher (Some seeded_store) (Some 1)
     = Inr [out_of 0 sample_aurora]"
    by (simp add: featured_case_studies_request_def featured_case_studies_def get_documents_def
          coll_def seeded_store_def f shape_stored_doc)
  show ?thesis
    using limit_bounds [of example_library literal_matcher None None None None None "Some 1" "[]" "[]" 101]
      limit_bounds [of example_library literal_matcher None None None None None "Some 1" "[]" "[]" 0]
      limit_bounds [of example_library literal_matcher "Some seeded_store" None None None None "Some 1" "[]"
        "[out_of 0 sample_aurora]" 1] r
    by simp
qed

section \<open>The diagnostic endpoint\<close>

text \<open>
  C8. Whatever the handle is (missing, listing its collections, or raising when asked
  to), and whatever the environment holds, the diagnostic endpoint answers with a report
  and never with an error. The store entries of the report depend on the handle only,
  the two environment entries on the environment only: the outcome of one check does not
  change what is reported of the others.
\<close>

theorem test_database_report:
  "\<exists>r. test_database db getenv = Inr r
     \<and> backend r = check_mark @ '' Running''
     \<and> connection_status r = (if db = None then ''Not Connected'' else ''Connected'')
     \<and> database r =
         (case db of
            None \<Rightarrow> warning_sign @ ''  Available but not initialized''
          | Some h \<Rightarrow>
              (case list_collection_names h of
                 Inr cs \<Rightarrow> check_mark @ '' Connected & Working''
               | Inl e \<Rightarrow> warning_sign @ ''  Connected but Error: '' @ take 50 e))
     \<and> collections r =
         (case db of
            None \<Rightarrow> []
          | Some h \<Rightarrow> (case list_collection_names h of Inr cs \<Rightarrow> take 10 cs | Inl e \<Rightarrow> []))
     \<and> database_url r =
         Some (if truthy (getenv ''DATABASE_URL'') then check_mark @ '' Set''
               else cross_mark @ '' Not Set'')
     \<and> database_name r =
         Some (if truthy (getenv ''DATABASE_NAME'') then check_mark @ '' Set''
               else cross_mark @ '' Not Set'')"
proof (cases db)
  case None
  then show ?thesis
    by (simp add: test_database_def)
next
  case (Some h)
  then show ?thesis
    by (cases "list_collection_names h") (simp_all add: test_database_def)
qed

text \<open>
  The statement at a handle whose listing raises, with \<open>DATABASE_URL\<close> set and
  \<open>DATABASE_NAME\<close> unset.
\<close>

theorem test_database_report_witness:
  "test_database (Some failing_handle) (\<lambda>k. if k = ''DATABASE_URL'' then Some ''mongodb://db'' else None)
   = Inr \<lparr>backend = check_mark @ '' Running'',
          database = warning_sign @ ''  Connected but Error: connection refused'',
          database_url = Some (check_mark @ '' Set''),
          database_name = Some (cross_mark @ '' Not Set''),
          connection_status = ''Connected'',
          collections = []\<rparr>"
  using test_database_report [of "Some failing_handle"
      "\<lambda>k. if k = ''DATABASE_URL'' then Some ''mongodb://db'' else None"]
  by (auto simp: failing_handle_def truthy_def)

section \<open>Seeding\<close>

lemma coll_create:
  "create_document (Some st) name p = (r, db') \<Longrightarrow>
     r = Inr (oid_str (next_oid st))
     \<and> (\<exists>st'. db' = Some st' \<and> coll st' name = coll st name @ [stored_doc (next_oid st) p]
            \<and> next_oid st' = Suc (next_oid st))"
  by (auto simp: create_document_def coll_def update_conv')

lemma get_all_one:
  "get_documents rx (Some st) name [] 1 = Inr (take 1 (coll st name))"
  by (simp add: get_documents_def matches_Nil)

lemma seed_exists:
  assumes "coll st ''casestudy'' \<noteq> []"
  shows "seed_demo_data rx (Some st) = (Inr \<lparr>status = ''exists'', inserted = 0\<rparr>, Some st)"
  using assms by (simp add: seed_demo_data_def get_all_one)

lemma seed_loop_samples:
  assumes "coll st ''casestudy'' = []"
  shows "\<exists>st'. seed_loop (Some st) samples 0 = (Inr 3, Some st')
     \<and> coll st' ''casestudy''
         = [stored_doc (next_oid st) sample_aurora, stored_doc (Suc (next_oid st)) sample_volt,
            stored_doc (Suc (Suc (next_oid st))) sample_nova]"
proof -
  obtain r1 d1 where c1: "create_document (Some st) ''casestudy'' sample_aurora = (r1, d1)"
    by (cases "create_document (Some st) ''casestudy'' sample_aurora")
  from coll_create [OF c1] assms obtain s1 where s1: "r1 = Inr (oid_str (next_oid st))" "d1 = Some s1"
    "coll s1 ''casestudy'' = [stored_doc (next_oid st) sample_aurora]" "next_oid s1 = Suc (next_oid st)"
    by auto
  obtain r2 d2 where c2: "create_document (Some s1) ''casestudy'' sample_volt = (r2, d2)"
    by (cases "create_document (Some s1) ''casestudy'' sample_volt")
  from coll_create [OF c2] s1 obtain s2 where s2: "r2 = Inr (oid_str (next_oid s1))" "d2 = Some s2"
    "coll s2 ''casestudy'' = [stored_doc (next_oid st) sample_aurora, stored_doc (Suc (next_oid st)) sample_volt]"
    "next_oid s2 = Suc (Suc (next_oid st))"
    by auto
  obtain r3 d3 where c3: "create_document (Some s2) ''casestudy'' sample_nova = (r3, d3)"
    by (cases "create_document (Some s2) ''casestudy'' sample_nova")
  from coll_create [OF c3] s2 obtain s3 where s3: "r3 = Inr (oid_str (next_oid s2))" "d3 = Some s3"
    "coll s3 ''casestudy'' = [stored_doc (next_oid st) sample_aurora, stored_doc (Suc (next_oid st)) sample_volt,
       stored_doc (Suc (Suc (next_oid st))) sample_nova]"
    by auto
  have "seed_loop (Some st) samples 0 = (Inr 3, Some s3)"
    using c1 c2 c3 s1(1,2) s2(1,2) s3(1,2) by (simp add: samples_def)
  with s3(3) show ?thesis by blast
qed

lemma seed_seeded:
  assumes "coll st ''casestudy'' = []"
  shows "\<exists>st'. seed_demo_data rx (Some st) = (Inr \<lparr>status = ''seeded'', inserted = 3\<rparr>, Some st')
     \<and> coll st' ''casestudy''
         = [stored_doc (next_oid st) sample_aurora, stored_doc (Suc (next_oid st)) sample_volt,
            stored_doc (Suc (Suc (next_oid st))) sample_nova]"
proof -
  from seed_loop_samples [OF assms] obtain st' where
    l: "seed_loop (Some st) samples 0 = (Inr 3, Some st')"
    and c: "coll st' ''casestudy''
         = [stored_doc (next_oid st) sample_aurora, stored_doc (Suc (next_oid st)) sample_volt,
            stored_doc (Suc (Suc (next_oid st))) sample_nova]"
    by blast
  have "seed_demo_data rx (Some st) = (Inr \<lparr>status = ''seeded'', inserted = 3\<rparr>, Some st')"
    using assms l by (simp add: seed_demo_data_def get_all_one)
  with c show ?thesis by blast
qed

text \<open>
  C3. On an available store: if the case-study collection holds a document, seed inserts
  nothing and answers \<open>exists\<close> with \<open>inserted\<close> 0; if it is empty, seed stores the three
  sample records, in order, and answers \<open>seeded\<close> with \<open>inserted\<close> 3; and a seed that
  follows a seed answers \<open>exists\<close> with \<open>inserted\<close> 0 and leaves the store as it found it.
\<close>

theorem seed_idempotent:
  assumes "db = Some st"
  shows "(coll st ''casestudy'' \<noteq> []
            \<longrightarrow> seed_demo_data rx db = (Inr \<lparr>status = ''exists'', inserted = 0\<rparr>, db))
     \<and> (coll st ''casestudy'' = []
            \<longrightarrow> (\<exists>st'. seed_demo_data rx db = (Inr \<lparr>status = ''seeded'', inserted = 3\<rparr>, Some st')
                  \<and> coll st' ''casestudy''
                      = [stored_doc (next_oid st) sample_aurora,
                         stored_doc (Suc (next_oid st)) sample_volt,
                         stored_doc (Suc (Suc (next_oid st))) sample_nova]))
     \<and> (\<forall>r1 db1. seed_demo_data rx db = (r1, db1)
            \<longrightarrow> seed_demo_data rx db1 = (Inr \<lparr>status = ''exists'', inserted = 0\<rparr>, db1))"
proof (intro conjI impI allI)
  assume "coll st ''casestudy'' \<noteq> []"
  then show "seed_demo_data rx db = (Inr \<lparr>status = ''exists'', inserted = 0\<rparr>, db)"
    using assms by (simp add: seed_exists)
next
  assume "coll st ''casestudy'' = []"
  then show "\<exists>st'. seed_demo_data rx db = (Inr \<lparr>status = ''seeded'', inserted = 3\<rparr>, Some st')
                  \<and> coll st' ''casestudy''
                      = [stored_doc (next_oid st) sample_aurora,
                         stored_doc (Suc (next_oid st)) sample_volt,
                         stored_doc (Suc (Suc (next_oid st))) sample_nova]"
    using assms seed_seeded by simp
next
  fix r1 db1
  assume a: "seed_demo_data rx db = (r1, db1)"
  show "seed_demo_data rx db1 = (Inr \<lparr>status = ''exists'', inserted = 0\<rparr>, db1)"
  proof (cases "coll st ''casestudy'' = []")
    case True
    from seed_seeded [OF True, of rx] a assms obtain st' where
      "db1 = Some st'" "coll st' ''casestudy'' \<noteq> []"
      by auto
    then show ?thesis
      by (simp add: seed_exists)
  next
    case False
    with a assms have "db1 = Some st"
      by (simp add: seed_exists)
    with False show ?thesis
      by (simp add: seed_exists)
  qed
qed

text \<open>
  The statement at the empty store: the first seed produces the seeded store, the second
  leaves it alone.
\<close>

theorem seed_idempotent_witness:
  "coll empty_store ''casestudy'' = []
   \<and> seed_demo_data literal_matcher (Some empty_store)
       = (Inr \<lparr>status = ''seeded'', inserted = 3\<rparr>, Some seeded_store)
   \<and> seed_demo_data literal_matcher (Some seeded_store)
       = (Inr \<lparr>status = ''exists'', inserted = 0\<rparr>, Some seeded_store)"
proof -
  have e: "coll empty_store ''casestudy'' = []"
    by (simp add: coll_def empty_store_def)
  have s: "seed_demo_data literal_matcher (Some empty_store)
       = (Inr \<lparr>status = ''seeded'', inserted = 3\<rparr>, Some seeded_store)"
    by (simp add: seed_demo_data_def get_all_one e samples_def create_document_def coll_def
          empty_store_def seeded_store_def numeral_2_eq_2 numeral_3_eq_3)
  show ?thesis
    using seed_idempotent [of "Some empty_store" empty_store literal_matcher] e s by simp
qed

section \<open>Validation before creation\<close>

lemma mem_failed: "k \<in> set (failed cs) \<longleftrightarrow> (k, False) \<in> set cs"
  by (induction cs) (auto simp: failed_def)

lemma CaseStudy_error_iff:
  "''brand'' \<in> set (CaseStudy_errors L d) \<longleftrightarrow> required as_str d ''brand'' = None"
  "''industry'' \<in> set (CaseStudy_errors L d) \<longleftrightarrow> required as_str d ''industry'' = None"
  "''campaign_type'' \<in> set (CaseStudy_errors L d) \<longleftrightarrow> required as_str d ''campaign_type'' = None"
  "''headline'' \<in> set (CaseStudy_errors L d) \<longleftrightarrow> required as_str d ''headline'' = None"
  "''highlight'' \<in> set (CaseStudy_errors L d) \<longleftrightarrow> required as_str d ''highlight'' = None"
  "''scope'' \<in> set (CaseStudy_errors L d) \<longleftrightarrow> defaulted [] (as_list as_str) d ''scope'' = None"
  "''tags'' \<in> set (CaseStudy_errors L d) \<longleftrightarrow> defaulted [] (as_list as_str) d ''tags'' = None"
  "''metrics'' \<in> set (CaseStudy_errors L d) \<longleftrightarrow> defaulted [] (as_list as_Metric) d ''metrics'' = None"
  "''featured'' \<in> set (CaseStudy_errors L d) \<longleftrightarrow> defaulted False as_bool d ''featured'' = None"
  "''performance_score'' \<in> set (CaseStudy_errors L d)
     \<longleftrightarrow> optional (as_float L) d ''performance_score'' = None"
  "''logo_url'' \<in> set (CaseStudy_errors L d) \<longleftrightarrow> optional (as_url L) d ''logo_url'' = None"
  "''video_url'' \<in> set (CaseStudy_errors L d) \<longleftrightarrow> optional (as_url L) d ''video_url'' = None"
  by (simp_all add: CaseStudy_errors_def mem_failed)

lemma None_iff_not_Some: "a = None \<longleftrightarrow> (\<forall>x. a \<noteq> Some x)"
  by auto

lemma required_str_None: "required as_str d k = None \<longleftrightarrow> (\<forall>s. map_of d k \<noteq> Some (VStr s))"
  by (simp add: None_iff_not_Some [of "required as_str d k"] required_str_iff)

lemma defaulted_str_list_None:
  "defaulted [] (as_list as_str) d k = None
     \<longleftrightarrow> (\<exists>v. map_of d k = Some v \<and> (\<forall>xs. v \<noteq> VList (map VStr xs)))"
proof (cases "map_of d k")
  case None
  then show ?thesis by (simp add: defaulted_def)
next
  case (Some v)
  have "as_list as_str v = None \<longleftrightarrow> (\<forall>xs. v \<noteq> VList (map VStr xs))"
    by (simp add: None_iff_not_Some [of "as_list as_str v"] as_list_str_iff)
  with Some show ?thesis by (simp add: defaulted_def)
qed

lemma defaulted_Metric_list_None:
  "defaulted [] (as_list as_Metric) d k = None
     \<longleftrightarrow> (\<exists>v. map_of d k = Some v \<and> (\<forall>ms vs. \<not> (v = VList vs \<and> list_all2 metric_entry vs ms)))"
proof (cases "map_of d k")
  case None
  then show ?thesis by (simp add: defaulted_def)
next
  case (Some v)
  have "as_list as_Metric v = None \<longleftrightarrow> (\<forall>ms vs. \<not> (v = VList vs \<and> list_all2 metric_entry vs ms))"
    by (simp add: None_iff_not_Some [of "as_list as_Metric v"] as_list_Metric_iff)
  with Some show ?thesis by (simp add: defaulted_def)
qed

lemma defaulted_bool_None:
  "defaulted False as_bool d k = None
     \<longleftrightarrow> (\<exists>v. map_of d k = Some v \<and> (\<forall>b. v \<noteq> VBool b) \<and> v \<noteq> VNum 0 \<and> v \<noteq> VNum 1
              \<and> (\<forall>s. v = VStr s \<longrightarrow> bool_of_string s = None))"
proof (cases "map_of d k")
  case None
  then show ?thesis by (simp add: defaulted_def)
next
  case (Some v)
  then show ?thesis by (simp add: defaulted_def as_bool_None_iff)
qed

lemma optional_float_None:
  "optional (as_float L) d k = None
     \<longleftrightarrow> (\<exists>v. map_of d k = Some v \<and> v \<noteq> VNull \<and> (\<forall>x. v \<noteq> VNum x) \<and> conv_float L v = None)"
proof (cases "map_of d k")
  case None
  then show ?thesis by (simp add: optional_def)
next
  case (Some v)
  then show ?thesis
    by (cases v) (auto simp: optional_def as_float_def split: option.splits)
qed

lemma optional_url_None:
  "optional (as_url L) d k = None
     \<longleftrightarrow> (\<exists>v. map_of d k = Some v \<and> v \<noteq> VNull \<and> (\<forall>s. v = VStr s \<longrightarrow> parse_url L s = None))"
proof (cases "map_of d k")
  case None
  then show ?thesis by (simp add: optional_def)
next
  case (Some v)
  then show ?thesis
    by (cases v) (auto simp: optional_def as_url_def split: option.splits)
qed

text \<open>
  C4 (as amended). A create request whose body has a field error is answered with the
  validation error that lists the fields, and the store is left as it was, whatever it
  is: the handler, and with it the store, is never reached. A field is in error exactly
  when it is a required field (\<open>brand\<close>, \<open>industry\<close>, \<open>campaign_type\<close>, \<open>headline\<close>,
  \<open>highlight\<close>) that is missing or not a string, or an optional field that is present
  with a value that its declared type neither is nor is converted from: for \<open>scope\<close> and
  \<open>tags\<close> anything but a list of strings; for \<open>metrics\<close> anything but a list of objects
  with a string \<open>label\<close> and a string \<open>value\<close>; for \<open>featured\<close> anything but a boolean, the
  numbers 0 and 1 and the strings read as a boolean; for \<open>performance_score\<close> anything
  but null, a number and what the library converts to a float; for \<open>logo_url\<close> and
  \<open>video_url\<close> anything but null and a string the library reads as a URL. An empty
  string is a string: it is no error.
\<close>

theorem create_rejects_invalid:
  "(CaseStudy_errors L body \<noteq> []
      \<longrightarrow> create_case_study_request L db body
            = (Inl (RequestValidationError (CaseStudy_errors L body)), db))
   \<and> (\<forall>k\<in>set [''brand'', ''industry'', ''campaign_type'', ''headline'', ''highlight''].
         k \<in> set (CaseStudy_errors L body) \<longleftrightarrow> (\<forall>s. map_of body k \<noteq> Some (VStr s)))
   \<and> (\<forall>k\<in>set [''scope'', ''tags''].
         k \<in> set (CaseStudy_errors L body)
           \<longleftrightarrow> (\<exists>v. map_of body k = Some v \<and> (\<forall>xs. v \<noteq> VList (map VStr xs))))
   \<and> (''metrics'' \<in> set (CaseStudy_errors L body)
         \<longleftrightarrow> (\<exists>v. map_of body ''metrics'' = Some v
                  \<and> (\<forall>ms vs. \<not> (v = VList vs \<and> list_all2 metric_entry vs ms))))
   \<and> (''featured'' \<in> set (CaseStudy_errors L body)
         \<longleftrightarrow> (\<exists>v. map_of body ''featured'' = Some v
                  \<and> (\<forall>b. v \<noteq> VBool b) \<and> v \<noteq> VNum 0 \<and> v \<noteq> VNum 1
                  \<and> (\<forall>s. v = VStr s \<longrightarrow> bool_of_string s = None)))
   \<and> (''performance_score'' \<in> set (CaseStudy_errors L body)
         \<longleftrightarrow> (\<exists>v. map_of body ''performance_score'' = Some v \<and> v \<noteq> VNull
                  \<and> (\<forall>x. v \<noteq> VNum x) \<and> conv_float L v = None))
   \<and> (\<forall>k\<in>set [''logo_url'', ''video_url''].
         k \<in> set (CaseStudy_errors L body)
           \<longleftrightarrow> (\<exists>v. map_of body k = Some v \<and> v \<noteq> VNull
                    \<and> (\<forall>s. v = VStr s \<longrightarrow> parse_url L s = None)))"
proof (intro conjI impI)
  assume "CaseStudy_errors L body \<noteq> []"
  then show "create_case_study_request L db body
            = (Inl (RequestValidationError (CaseStudy_errors L body)), db)"
    by (simp add: create_case_study_request_def validate_CaseStudy_def)
next
  show "\<forall>k\<in>set [''brand'', ''industry'', ''campaign_type'', ''headline'', ''highlight''].
         k \<in> set (CaseStudy_errors L body) \<longleftrightarrow> (\<forall>s. map_of body k \<noteq> Some (VStr s))"
    by (simp add: CaseStudy_error_iff required_str_None)
next
  show "\<forall>k\<in>set [''scope'', ''tags''].
         k \<in> set (CaseStudy_errors L body)
           \<longleftrightarrow> (\<exists>v. map_of body k = Some v \<and> (\<forall>xs. v \<noteq> VList (map VStr xs)))"
    by (simp add: CaseStudy_error_iff defaulted_str_list_None)
next
  show "''metrics'' \<in> set (CaseStudy_errors L body)
         \<longleftrightarrow> (\<exists>v. map_of body ''metrics'' = Some v
                  \<and> (\<forall>ms vs. \<not> (v = VList vs \<and> list_all2 metric_entry vs ms)))"
    by (simp only: CaseStudy_error_iff defaulted_Metric_list_None)
next
  show "''featured'' \<in> set (CaseStudy_errors L body)
         \<longleftrightarrow> (\<exists>v. map_of body ''featured'' = Some v
                  \<and> (\<forall>b. v \<noteq> VBool b) \<and> v \<noteq> VNum 0 \<and> v \<noteq> VNum 1
                  \<and> (\<forall>s. v = VStr s \<longrightarrow> bool_of_string s = None))"
    by (simp only: CaseStudy_error_iff defaulted_bool_None)
next
  show "''performance_score'' \<in> set (CaseStudy_errors L body)
         \<longleftrightarrow> (\<exists>v. map_of body ''performance_score'' = Some v \<and> v \<noteq> VNull
                  \<and> (\<forall>x. v \<noteq> VNum x) \<and> conv_float L v = None)"
    by (simp only: CaseStudy_error_iff optional_float_None)
next
  show "\<forall>k\<in>set [''logo_url'', ''video_url''].
         k \<in> set (CaseStudy_errors L body)
           \<longleftrightarrow> (\<exists>v. map_of body k = Some v \<and> v \<noteq> VNull
                    \<and> (\<forall>s. v = VStr s \<longrightarrow> parse_url L s = None))"
    by (simp add: CaseStudy_error_iff optional_url_None)
qed

text \<open>
  The statement at a body without \<open>brand\<close> and at a body whose \<open>featured\<close> is a list.
\<close>

theorem create_rejects_invalid_witness:
  "map_of (AList.delete ''brand'' empty_brand_body) ''brand'' = None
   \<and> CaseStudy_errors example_library (AList.delete ''brand'' empty_brand_body) = [''brand'']
   \<and> create_case_study_request example_library (Some two_store)
         (AList.delete ''brand'' empty_brand_body)
       = (Inl (RequestValidationError [''brand'']), Some two_store)
   \<and> CaseStudy_errors example_library (AList.update ''featured'' (VList []) empty_brand_body)
       = [''featured'']
   \<and> create_case_study_request example_library (Some two_store)
         (AList.update ''featured'' (VList []) empty_brand_body)
       = (Inl (RequestValidationError [''featured'']), Some two_store)"
proof -
  have a: "CaseStudy_errors example_library (AList.delete ''brand'' empty_brand_body) = [''brand'']"
    by (simp add: CaseStudy_errors_def failed_def empty_brand_body_def required_def
          optional_def defaulted_def as_str_def)
  have b: "CaseStudy_errors example_library (AList.update ''featured'' (VList []) empty_brand_body)
       = [''featured'']"
    by (simp add: CaseStudy_errors_def failed_def empty_brand_body_def required_def
          optional_def defaulted_def as_str_def as_bool_def)
  have c: "map_of (AList.delete ''brand'' empty_brand_body) ''brand'' = None"
    by (simp add: empty_brand_body_def)
  show ?thesis
    using create_rejects_invalid [of example_library "AList.delete ''brand'' empty_brand_body"
        "Some two_store"]
      create_rejects_invalid [of example_library
        "AList.update ''featured'' (VList []) empty_brand_body" "Some two_store"] a b c
    by simp
qed

text \<open>
  C4 as stated fails for the empty string: the schema declares \<open>brand\<close> as a plain
  string, so a body with an empty \<open>brand\<close> validates and its document is inserted. Nor is
  every value of another type than the declared one rejected: a body whose \<open>featured\<close>
  is the string \<open>yes\<close> validates, to a case study that is featured, and is inserted.
\<close>

theorem create_accepts_empty_brand_counterexample:
  "map_of empty_brand_body ''brand'' = Some (VStr '''')
   \<and> validate_CaseStudy example_library empty_brand_body = Inr empty_brand_study
   \<and> create_case_study_request example_library (Some empty_store) empty_brand_body
       = (Inr [(''id'', VStr (oid_str 0))],
          Some \<lparr>colls = [(''casestudy'', [stored_doc 0 empty_brand_study])], next_oid = 1\<rparr>)
   \<and> map_of yes_body ''featured'' = Some (VStr ''yes'')
   \<and> validate_CaseStudy example_library yes_body = Inr yes_study
   \<and> featured yes_study
   \<and> create_case_study_request example_library (Some empty_store) yes_body
       = (Inr [(''id'', VStr (oid_str 0))],
          Some \<lparr>colls = [(''casestudy'', [stored_doc 0 yes_study])], next_oid = 1\<rparr>)"
proof -
  have e: "CaseStudy_errors example_library empty_brand_body = []"
    by (simp add: CaseStudy_errors_def failed_def empty_brand_body_def required_def
          optional_def defaulted_def as_str_def)
  have v: "validate_CaseStudy example_library empty_brand_body = Inr empty_brand_study"
    by (simp add: validate_CaseStudy_def e)
       (simp add: empty_brand_body_def empty_brand_study_def required_def optional_def defaulted_def
          as_str_def)
  have 1: "create_case_study_request example_library (Some empty_store) empty_brand_body
       = (Inr [(''id'', VStr (oid_str 0))],
          Some \<lparr>colls = [(''casestudy'', [stored_doc 0 empty_brand_study])], next_oid = 1\<rparr>)"
    by (simp add: create_case_study_request_def v create_case_study_def create_document_def
          coll_def empty_store_def)
  have y: "bool_of_string ''yes'' = Some True"
    by (simp add: bool_of_string_def lower_char_def)
  have e': "CaseStudy_errors example_library yes_body = []"
    by (simp add: CaseStudy_errors_def failed_def yes_body_def required_def
          optional_def defaulted_def as_str_def as_bool_def y)
  have v': "validate_CaseStudy example_library yes_body = Inr yes_study"
    by (simp add: validate_CaseStudy_def e')
       (simp add: yes_body_def yes_study_def required_def optional_def defaulted_def
          as_str_def as_bool_def y)
  have 2: "create_case_study_request example_library (Some empty_store) yes_body
       = (Inr [(''id'', VStr (oid_str 0))],
          Some \<lparr>colls = [(''casestudy'', [stored_doc 0 yes_study])], next_oid = 1\<rparr>)"
    by (simp add: create_case_study_request_def v' create_case_study_def create_document_def
          coll_def empty_store_def)
  have 3: "map_of empty_brand_body ''brand'' = Some (VStr '''')"
    by (simp add: empty_brand_body_def)
  have 4: "map_of yes_body ''featured'' = Some (VStr ''yes'')"
    by (simp add: yes_body_def)
  have 5: "featured yes_study"
    by (simp add: yes_study_def)
  show ?thesis
    using 3 v 1 4 v' 5 2 by simp
qed

section \<open>Create, then list\<close>







end
